theory Spec2Isabelle
  imports Complex_Main "HOL-Library.Log_Nat" "HOL-Library.Word"
begin

section \<open>Strings\<close>

text \<open>
  A JavaScript string is a sequence of UTF-16 code units. Identifiers are only compared
  for equality; the texts of the forms are trimmed, and \<open>String.prototype.trim\<close> removes
  the code units of ECMAScript's WhiteSpace and LineTerminator productions (all of them
  in the basic plane) from both ends.
\<close>

type_synonym jsstring = "16 word list"

definition utf16 :: "string \<Rightarrow> jsstring" where
  "utf16 s = map of_char s"

definition isWhiteSpace :: "16 word \<Rightarrow> bool" where
  "isWhiteSpace u \<longleftrightarrow>
     u \<in> set [0x0009, 0x000A, 0x000B, 0x000C, 0x000D, 0x0020, 0x00A0, 0x1680,
              0x2028, 0x2029, 0x202F, 0x205F, 0x3000, 0xFEFF]
     \<or> (0x2000 \<le> u \<and> u \<le> 0x200A)"

definition trim :: "jsstring \<Rightarrow> jsstring" where
  "trim s = rev (dropWhile isWhiteSpace (rev (dropWhile isWhiteSpace s)))"

section \<open>Numbers\<close>

text \<open>
  A JavaScript number is an IEEE 754 binary64 value: a finite double (the zero with a sign),
  an infinity or NaN. \<open>Fin x\<close> is the finite double of value \<open>x\<close>, \<open>Fin 0\<close> the positive
  zero and \<open>NegZero\<close> the negative one. Every arithmetic operation computes the exact real
  result and rounds it to the nearest double, a tie going to the even significand
  (\<open>fl\<close>); \<open>x / 0\<close> does not raise.
\<close>

datatype jsnum = Fin real | NegZero | PosInf | NegInf | NaN

text \<open>The nearest integer, a tie going to the even one.\<close>

definition rne :: "real \<Rightarrow> int" where
  "rne y = (let f = \<lfloor>y\<rfloor>; d = y - of_int f
            in if d < 1 / 2 then f else if 1 / 2 < d then f + 1
               else if even f then f else f + 1)"

text \<open>The binary exponent of a positive real: \<open>2 powi ilog2 a \<le> a < 2 powi (ilog2 a + 1)\<close>.\<close>

definition ilog2 :: "real \<Rightarrow> int" where
  "ilog2 a = (if 1 \<le> a then bitlen \<lfloor>a\<rfloor> - 1 else - bitlen (\<lceil>1 / a\<rceil> - 1))"

text \<open>
  A positive real rounded to 53 significant bits, with the spacing \<open>2 powi (- 1074)\<close> of
  the subnormal doubles at the bottom of the range.
\<close>

definition roundMagnitude :: "real \<Rightarrow> real" where
  "roundMagnitude a =
     (let e = max (ilog2 a) (- 1022); q = 2 powi (e - 52)
      in of_int (rne (a / q)) * q)"

text \<open>
  The double nearest to a real: an infinity from \<open>2 powi 1024\<close> on, a zero of the same sign
  when the magnitude rounds to nothing.
\<close>

definition fl :: "real \<Rightarrow> jsnum" where
  "fl x =
     (if x = 0 then Fin 0
      else
        let r = roundMagnitude \<bar>x\<bar>
        in if 2 powi 1024 \<le> r then (if 0 < x then PosInf else NegInf)
           else if r = 0 then (if 0 < x then Fin 0 else NegZero)
           else Fin (if 0 < x then r else - r))"

fun isNaN :: "jsnum \<Rightarrow> bool" where
  "isNaN NaN = True"
| "isNaN _ = False"

fun isInf :: "jsnum \<Rightarrow> bool" where
  "isInf PosInf = True"
| "isInf NegInf = True"
| "isInf _ = False"

fun isZero :: "jsnum \<Rightarrow> bool" where
  "isZero (Fin a) = (a = 0)"
| "isZero NegZero = True"
| "isZero _ = False"

fun negative :: "jsnum \<Rightarrow> bool" where
  "negative (Fin a) = (a < 0)"
| "negative NegZero = True"
| "negative NegInf = True"
| "negative _ = False"

fun val :: "jsnum \<Rightarrow> real" where
  "val (Fin a) = a"
| "val _ = 0"

text \<open>\<open>x / y\<close>\<close>

definition js_div :: "jsnum \<Rightarrow> jsnum \<Rightarrow> jsnum" where
  "js_div x y =
     (if isNaN x \<or> isNaN y then NaN
      else if (isInf x \<and> isInf y) \<or> (isZero x \<and> isZero y) then NaN
      else if isInf x \<or> isZero y then (if negative x \<noteq> negative y then NegInf else PosInf)
      else if isZero x \<or> isInf y then (if negative x \<noteq> negative y then NegZero else Fin 0)
      else fl (val x / val y))"

text \<open>\<open>x * y\<close>\<close>

definition js_mul :: "jsnum \<Rightarrow> jsnum \<Rightarrow> jsnum" where
  "js_mul x y =
     (if isNaN x \<or> isNaN y then NaN
      else if (isInf x \<and> isZero y) \<or> (isZero x \<and> isInf y) then NaN
      else if isInf x \<or> isInf y then (if negative x \<noteq> negative y then NegInf else PosInf)
      else if isZero x \<or> isZero y then (if negative x \<noteq> negative y then NegZero else Fin 0)
      else fl (val x * val y))"

text \<open>\<open>x + y\<close>: two zeros give the negative zero only when both are negative.\<close>

definition js_add :: "jsnum \<Rightarrow> jsnum \<Rightarrow> jsnum" where
  "js_add x y =
     (if isNaN x \<or> isNaN y then NaN
      else if isInf x then (if isInf y \<and> y \<noteq> x then NaN else x)
      else if isInf y then y
      else if isZero x \<and> isZero y then (if x = NegZero \<and> y = NegZero then NegZero else Fin 0)
      else if val x + val y = 0 then Fin 0
      else fl (val x + val y))"

text \<open>\<open>x >= y\<close>: false as soon as one side is NaN; the two zeros are equal.\<close>

definition js_ge :: "jsnum \<Rightarrow> jsnum \<Rightarrow> bool" where
  "js_ge x y \<longleftrightarrow>
     \<not> isNaN x \<and> \<not> isNaN y
     \<and> (x = PosInf \<or> y = NegInf \<or> (\<not> isInf x \<and> \<not> isInf y \<and> val y \<le> val x))"

text \<open>\<open>Math.min(x, y)\<close>: NaN when one argument is, and the negative zero below the positive.\<close>

definition Math_min :: "jsnum \<Rightarrow> jsnum \<Rightarrow> jsnum" where
  "Math_min x y =
     (if isNaN x \<or> isNaN y then NaN
      else if isZero x \<and> isZero y then (if x = NegZero \<or> y = NegZero then NegZero else Fin 0)
      else if js_ge x y then y else x)"

text \<open>
  \<open>Math.round\<close>: the nearest integer, a tie going up, computed exactly; a value in
  \<open>[-0.5, 0)\<close> gives the negative zero; zeros, infinities and NaN stay.
\<close>

fun Math_round :: "jsnum \<Rightarrow> jsnum" where
  "Math_round (Fin a) =
     (let n = \<lfloor>a + 1 / 2\<rfloor>
      in if n = 0 then (if a < 0 then NegZero else Fin 0) else Fin (of_int n))"
| "Math_round x = x"

text \<open>
  An integer of magnitude below \<open>2 ^ 52\<close>, which every percentage is. On such values
  the sums and comparisons of the goal progress engine agree with exact arithmetic.
\<close>

definition smallInteger :: "jsnum \<Rightarrow> bool" where
  "smallInteger x = (case x of Fin a \<Rightarrow> a = of_int \<lfloor>a\<rfloor> \<and> \<bar>a\<bar> < 2 ^ 52 | _ \<Rightarrow> False)"

section \<open>Entity model\<close>

text \<open>
  Modelled from the spec: the type declarations of \<open>@/lib/types\<close> (TherapyStatus,
  TherapyGoal, TherapySession, ChildProfile and the three actor profiles) are imported by
  \<open>page.tsx\<close> and are not part of the sources. The records carry the fields that
  \<open>page.tsx\<close> reads and writes, under the names it uses; a field \<open>id\<close> is prefixed
  with its owner, as are the fields of an upcoming session that a logged session has too.
\<close>

datatype TherapyStatus = on_track | needs_support | at_risk

record TherapyGoal =
  goal_id :: jsstring
  category :: jsstring
  description :: jsstring
  baseline :: jsnum
  current :: jsnum
  target :: jsnum
  status :: TherapyStatus

record TherapySession =
  session_id :: jsstring
  date :: jsstring
  focus :: jsstring
  goalsWorkedOn :: "jsstring list"
  rating :: jsnum
  session_notes :: jsstring
  therapistId :: jsstring

record UpcomingSession =
  upcoming_id :: jsstring
  upcoming_date :: jsstring
  upcoming_focus :: jsstring
  location :: jsstring
  upcoming_therapistId :: jsstring
  upcoming_childId :: jsstring

record ChildProfile =
  child_id :: jsstring
  name :: jsstring
  age :: jsnum
  diagnosis :: jsstring
  avatarColor :: jsstring
  therapists :: "jsstring list"
  therapyGoals :: "TherapyGoal list"
  sessionHistory :: "TherapySession list"
  upcomingSessions :: "UpcomingSession list"

record Profile =
  profile_id :: jsstring
  profile_name :: jsstring
  childIds :: "jsstring list"

record TherapistProfile = Profile +
  title :: jsstring

record ParentProfile = Profile +
  contact :: jsstring

record DonorProfile = Profile +
  contribution :: jsnum
  lastUpdate :: jsstring
  missions :: "jsstring list"

section \<open>Goal progress engine\<close>

text \<open>
  \<open>updateGoalStatus\<close> (page.tsx, lines 413 to 422): the quotient of \<open>current\<close> by
  \<open>target\<close>, a double, is compared with the doubles that the literals \<open>0.8\<close> and
  \<open>0.55\<close> denote; every other field is copied.
\<close>

definition updateGoalStatus :: "TherapyGoal \<Rightarrow> TherapyGoal" where
  "updateGoalStatus goal =
     (let ratio = js_div (current goal) (target goal);
          status' = (if js_ge ratio (fl (8 / 10)) then on_track
                     else if js_ge ratio (fl (55 / 100)) then needs_support
                     else at_risk)
      in goal\<lparr>status := status'\<rparr>)"

text \<open>
  The two lines of \<open>handleAddSession\<close> (465 and 466) that clamp the new value at the
  target and reclassify, with \<open>goal.current + increment\<close> taken as \<open>newCurrent\<close>.
\<close>

definition reclassify :: "TherapyGoal \<Rightarrow> jsnum \<Rightarrow> TherapyGoal" where
  "reclassify goal newCurrent =
     (let nextCurrent = Math_min (target goal) newCurrent
      in updateGoalStatus (goal\<lparr>current := nextCurrent\<rparr>))"

text \<open>
  The three-tier rule in the words of the specification, on the exact ratio
  \<open>r = current / target\<close>: on track from 0.80, needs support from 0.55, at risk below.
\<close>

definition specStatus :: "real \<Rightarrow> TherapyStatus" where
  "specStatus r =
     (if 80 / 100 \<le> r then on_track else if 55 / 100 \<le> r then needs_support else at_risk)"

text \<open>
  The invariant of the specification: the status a goal carries is the class of the exact
  ratio of its \<open>current\<close> to its (non-zero) \<open>target\<close>.
\<close>

definition statusConsistent :: "TherapyGoal \<Rightarrow> bool" where
  "statusConsistent goal =
     (case (current goal, target goal) of
        (Fin c, Fin t) \<Rightarrow> t \<noteq> 0 \<and> status goal = specStatus (c / t)
      | _ \<Rightarrow> False)"

text \<open>A goal as the data model has it: integers, with a positive target.\<close>

definition percentGoal :: "TherapyGoal \<Rightarrow> bool" where
  "percentGoal goal \<longleftrightarrow>
     smallInteger (current goal) \<and> smallInteger (target goal) \<and> 0 < val (target goal)"

section \<open>Component state\<close>

text \<open>
  Modelled from the spec: \<open>initialSnapshot\<close> of \<open>@/lib/mockData\<close> is not part of the
  sources. Its lists of therapists, parents and donors, which \<open>Home\<close> never changes, are
  a parameter of every operation that reads them.
\<close>

record Snapshot =
  snapshot_therapists :: "TherapistProfile list"
  snapshot_parents :: "ParentProfile list"
  snapshot_donors :: "DonorProfile list"

datatype RoleKey = Center | Therapist | Parent | Donor

record FamilyUpdate =
  update_id :: jsstring
  update_message :: jsstring
  update_date :: jsstring

text \<open>The \<open>useState\<close> cells of \<open>Home\<close> (lines 238 to 254).\<close>

record HomeState =
  children :: "ChildProfile list"
  selectedRole :: RoleKey
  selectedTherapistId :: jsstring
  selectedParentId :: jsstring
  selectedDonorId :: jsstring
  selectedChildId :: jsstring
  familyUpdates :: "jsstring \<rightharpoonup> FamilyUpdate list"

text \<open>\<open>xs[0]\<close> is undefined on an empty array; \<open>a ?? b\<close> is b when a is undefined.\<close>

definition first_of :: "'a list \<Rightarrow> 'a option" where
  "first_of xs = (case xs of [] \<Rightarrow> None | x # _ \<Rightarrow> Some x)"

definition orElse :: "'a option \<Rightarrow> 'a option \<Rightarrow> 'a option" where
  "orElse a b = (case a of Some x \<Rightarrow> Some x | None \<Rightarrow> b)"

section \<open>Selection cascade\<close>

definition findFirstExistingChildId :: "HomeState \<Rightarrow> jsstring list \<Rightarrow> jsstring option" where
  "findFirstExistingChildId st ids =
     find (\<lambda>childId. list_ex (\<lambda>child. child_id child = childId) (children st)) ids"

text \<open>
  \<open>candidateId && children.some(...)\<close>: an undefined candidate and the empty string are
  both falsy. The fallback is \<open>children[0]?.id ?? ""\<close>.
\<close>

definition ensureChildSelection :: "HomeState \<Rightarrow> jsstring option \<Rightarrow> jsstring" where
  "ensureChildSelection st candidateId =
     (let fallback = (case first_of (children st) of Some child \<Rightarrow> child_id child | None \<Rightarrow> [])
      in case candidateId of
           None \<Rightarrow> fallback
         | Some c \<Rightarrow>
             if c \<noteq> [] \<and> list_ex (\<lambda>child. child_id child = c) (children st) then c
             else fallback)"

definition handleRoleSelect :: "Snapshot \<Rightarrow> RoleKey \<Rightarrow> HomeState \<Rightarrow> HomeState" where
  "handleRoleSelect snap role st =
     (let st1 = st\<lparr>selectedRole := role\<rparr>
      in case role of
           Therapist \<Rightarrow>
             (case orElse (find (\<lambda>profile. profile_id profile = selectedTherapistId st)
                             (snapshot_therapists snap))
                          (first_of (snapshot_therapists snap)) of
                Some fallbackTherapist \<Rightarrow>
                  (let childId = findFirstExistingChildId st (childIds fallbackTherapist)
                   in st1\<lparr>selectedTherapistId := profile_id fallbackTherapist,
                          selectedChildId := ensureChildSelection st childId\<rparr>)
              | None \<Rightarrow> st1)
         | Parent \<Rightarrow>
             (case orElse (find (\<lambda>profile. profile_id profile = selectedParentId st)
                             (snapshot_parents snap))
                          (first_of (snapshot_parents snap)) of
                Some fallbackParent \<Rightarrow>
                  (let childId = findFirstExistingChildId st (childIds fallbackParent)
                   in st1\<lparr>selectedParentId := profile_id fallbackParent,
                          selectedChildId := ensureChildSelection st childId\<rparr>)
              | None \<Rightarrow> st1)
         | Donor \<Rightarrow>
             (case orElse (find (\<lambda>profile. profile_id profile = selectedDonorId st)
                             (snapshot_donors snap))
                          (first_of (snapshot_donors snap)) of
                Some fallbackDonor \<Rightarrow>
                  (let childId = findFirstExistingChildId st (childIds fallbackDonor)
                   in st1\<lparr>selectedDonorId := profile_id fallbackDonor,
                          selectedChildId := ensureChildSelection st childId\<rparr>)
              | None \<Rightarrow> st1)
         | Center \<Rightarrow>
             st1\<lparr>selectedChildId := ensureChildSelection st (Some (selectedChildId st))\<rparr>)"

definition handleTherapistChange :: "Snapshot \<Rightarrow> jsstring \<Rightarrow> HomeState \<Rightarrow> HomeState" where
  "handleTherapistChange snap ident st =
     (let st1 = st\<lparr>selectedTherapistId := ident\<rparr>
      in case find (\<lambda>profile. profile_id profile = ident) (snapshot_therapists snap) of
           Some therapist \<Rightarrow>
             (let childId = findFirstExistingChildId st (childIds therapist)
              in st1\<lparr>selectedChildId := ensureChildSelection st childId\<rparr>)
         | None \<Rightarrow> st1)"

definition handleParentChange :: "Snapshot \<Rightarrow> jsstring \<Rightarrow> HomeState \<Rightarrow> HomeState" where
  "handleParentChange snap ident st =
     (let st1 = st\<lparr>selectedParentId := ident\<rparr>
      in case find (\<lambda>profile. profile_id profile = ident) (snapshot_parents snap) of
           Some parent \<Rightarrow>
             (let childId = findFirstExistingChildId st (childIds parent)
              in st1\<lparr>selectedChildId := ensureChildSelection st childId\<rparr>)
         | None \<Rightarrow> st1)"

definition handleDonorChange :: "Snapshot \<Rightarrow> jsstring \<Rightarrow> HomeState \<Rightarrow> HomeState" where
  "handleDonorChange snap ident st =
     (let st1 = st\<lparr>selectedDonorId := ident\<rparr>
      in case find (\<lambda>profile. profile_id profile = ident) (snapshot_donors snap) of
           Some donor \<Rightarrow>
             (let childId = findFirstExistingChildId st (childIds donor)
              in st1\<lparr>selectedChildId := ensureChildSelection st childId\<rparr>)
         | None \<Rightarrow> st1)"

text \<open>The child badge's \<open>onSelect\<close> (line 534).\<close>

definition pickChild :: "jsstring \<Rightarrow> HomeState \<Rightarrow> HomeState" where
  "pickChild ident st = st\<lparr>selectedChildId := ident\<rparr>"

subsection \<open>Derived selection (lines 336 to 363)\<close>

definition selectedChild :: "HomeState \<Rightarrow> ChildProfile option" where
  "selectedChild st = find (\<lambda>child. child_id child = selectedChildId st) (children st)"


definition selectedParent :: "Snapshot \<Rightarrow> HomeState \<Rightarrow> ParentProfile option" where
  "selectedParent snap st =
     find (\<lambda>profile. profile_id profile = selectedParentId st) (snapshot_parents snap)"

definition selectedDonor :: "Snapshot \<Rightarrow> HomeState \<Rightarrow> DonorProfile option" where
  "selectedDonor snap st =
     find (\<lambda>profile. profile_id profile = selectedDonorId st) (snapshot_donors snap)"

text \<open>\<open>selectedParent?.childIds.includes(child.id)\<close> is undefined, so falsy, without a parent.\<close>

definition filteredChildren :: "Snapshot \<Rightarrow> HomeState \<Rightarrow> ChildProfile list" where
  "filteredChildren snap st =
     (case selectedRole st of
        Therapist \<Rightarrow>
          filter (\<lambda>child. selectedTherapistId st \<in> set (therapists child)) (children st)
      | Parent \<Rightarrow>
          filter (\<lambda>child. case selectedParent snap st of
                            None \<Rightarrow> False
                          | Some p \<Rightarrow> child_id child \<in> set (childIds p)) (children st)
      | Donor \<Rightarrow>
          filter (\<lambda>child. case selectedDonor snap st of
                            None \<Rightarrow> False
                          | Some d \<Rightarrow> child_id child \<in> set (childIds d)) (children st)
      | Center \<Rightarrow> children st)"

text \<open>\<open>selectedChild ?? filteredChildren[0] ?? children[0] ?? null\<close>, with None for null.\<close>

definition resolvedChild :: "Snapshot \<Rightarrow> HomeState \<Rightarrow> ChildProfile option" where
  "resolvedChild snap st =
     orElse (selectedChild st)
       (orElse (first_of (filteredChildren snap st)) (first_of (children st)))"

text \<open>
  The filter in the words of the specification, to compare with \<open>filteredChildren\<close>:
  the center sees every child, a therapist the children whose therapist list contains the
  active therapist, a parent or a donor the children of that actor's child-id list.
\<close>

definition visibleUnderRole :: "Snapshot \<Rightarrow> HomeState \<Rightarrow> ChildProfile \<Rightarrow> bool" where
  "visibleUnderRole snap st child =
     (case selectedRole st of
        Center \<Rightarrow> True
      | Therapist \<Rightarrow> selectedTherapistId st \<in> set (therapists child)
      | Parent \<Rightarrow> (case selectedParent snap st of
                      None \<Rightarrow> False
                    | Some actor \<Rightarrow> child_id child \<in> set (childIds actor))
      | Donor \<Rightarrow> (case selectedDonor snap st of
                     None \<Rightarrow> False
                   | Some actor \<Rightarrow> child_id child \<in> set (childIds actor)))"

section \<open>Aggregate metrics\<close>

text \<open>
  \<open>thisWeekSessions\<close> (lines 365 to 371). The runtime's \<open>Date\<close> is a parameter:
  \<open>parseDate\<close> gives the time value, in milliseconds, of \<open>new Date(s)\<close>, None for an
  invalid date (its time value is NaN, and every comparison with it is false);
  \<open>LocalTZA t isUTC\<close> is the offset of the local time zone, as in ECMAScript's
  LocalTime and UTC; \<open>now\<close> is the time value of \<open>new Date()\<close>.
  \<open>setDate(getDate() - 7)\<close> moves the local time back by seven days of 86400000 ms.
\<close>

definition msPerDay :: int where
  "msPerDay = 86400000"

definition weekAgo :: "(int \<Rightarrow> bool \<Rightarrow> int) \<Rightarrow> int \<Rightarrow> int" where
  "weekAgo LocalTZA now =
     (let localTime = now + LocalTZA now True;
          newDate = localTime - 7 * msPerDay
      in newDate - LocalTZA newDate False)"

definition thisWeekSessions ::
  "(jsstring \<Rightarrow> int option) \<Rightarrow> (int \<Rightarrow> bool \<Rightarrow> int) \<Rightarrow> int \<Rightarrow> HomeState \<Rightarrow> nat" where
  "thisWeekSessions parseDate LocalTZA now st =
     length (filter (\<lambda>session. case parseDate (date session) of
                                 None \<Rightarrow> False
                               | Some t \<Rightarrow> t \<ge> weekAgo LocalTZA now)
               (concat (map sessionHistory (children st))))"

text \<open>
  \<open>averageProgress\<close> of \<open>DonorImpactPanel\<close> (lines 955 to 968). The inner quotient is
  the sum of a child's \<open>current\<close> values over the number of its goals, whatever that
  number is.
\<close>

definition averageProgress :: "DonorProfile \<Rightarrow> ChildProfile list \<Rightarrow> jsnum" where
  "averageProgress donor childProfiles =
     (let supportedChildren =
            filter (\<lambda>child. child_id child \<in> set (childIds donor)) childProfiles
      in if length supportedChildren \<noteq> 0
         then Math_round
                (js_div
                   (foldl (\<lambda>sum child.
                             let progress =
                                   js_div (foldl (\<lambda>gSum goal. js_add gSum (current goal)) (Fin 0)
                                             (therapyGoals child))
                                          (Fin (of_nat (length (therapyGoals child))))
                             in js_add sum progress)
                          (Fin 0) supportedChildren)
                   (Fin (of_nat (length supportedChildren))))
         else Fin 0)"

section \<open>Mutation log\<close>

text \<open>
  \<open>createClientId()\<close> and \<open>new Date().toISOString()\<close> are capabilities of the runtime:
  the identifier and the timestamp they return are arguments (\<open>newId\<close>, \<open>nowIso\<close>).
\<close>

text \<open>
  \<open>familyUpdates\<close> is a plain object used as a dictionary: \<open>prev[childId]\<close> finds an own
  property (the map below) or else a property inherited from \<open>Object.prototype\<close>. An
  inherited one is a function or an object, not undefined, so \<open>?? []\<close> keeps it and
  spreading it into the new array raises a TypeError.
\<close>

datatype error = TypeError

definition objectPrototypeKeys :: "jsstring list" where
  "objectPrototypeKeys =
     map utf16 [''constructor'', ''__defineGetter__'', ''__defineSetter__'', ''hasOwnProperty'',
                ''__lookupGetter__'', ''__lookupSetter__'', ''isPrototypeOf'',
                ''propertyIsEnumerable'', ''toString'', ''valueOf'', ''__proto__'',
                ''toLocaleString'']"

definition handleAddFamilyUpdate ::
  "jsstring \<Rightarrow> jsstring \<Rightarrow> jsstring \<Rightarrow> jsstring \<Rightarrow> HomeState \<Rightarrow> error + HomeState" where
  "handleAddFamilyUpdate newId nowIso childId message st =
     (if trim message = [] then Inr st
      else
        let newEntry = \<lparr>update_id = newId, update_message = trim message, update_date = nowIso\<rparr>
        in case familyUpdates st childId of
             Some existing \<Rightarrow>
               Inr (st\<lparr>familyUpdates := (familyUpdates st)(childId \<mapsto> newEntry # existing)\<rparr>)
           | None \<Rightarrow>
               if childId \<in> set objectPrototypeKeys then Inl TypeError
               else Inr (st\<lparr>familyUpdates := (familyUpdates st)(childId \<mapsto> [newEntry])\<rparr>))"

record SessionPayload =
  p_childId :: jsstring
  p_focus :: jsstring
  p_notes :: jsstring
  p_rating :: jsnum
  p_date :: jsstring
  p_goalIds :: "jsstring list"
  p_therapistId :: jsstring

text \<open>\<open>Math.round((rating / 5) * 8)\<close>\<close>

definition sessionIncrement :: "jsnum \<Rightarrow> jsnum" where
  "sessionIncrement r = Math_round (js_mul (js_div r (Fin 5)) (Fin 8))"

definition noNotesPlaceholder :: jsstring where
  "noNotesPlaceholder = utf16 ''No additional notes recorded.''"

definition newSession :: "jsstring \<Rightarrow> SessionPayload \<Rightarrow> TherapySession" where
  "newSession newId p =
     \<lparr>session_id = newId,
      date = p_date p,
      focus = trim (p_focus p),
      goalsWorkedOn = p_goalIds p,
      rating = p_rating p,
      session_notes = (if trim (p_notes p) = [] then noNotesPlaceholder else trim (p_notes p)),
      therapistId = p_therapistId p\<rparr>"

definition handleAddSession :: "jsstring \<Rightarrow> SessionPayload \<Rightarrow> HomeState \<Rightarrow> HomeState" where
  "handleAddSession newId p st =
     (if trim (p_focus p) = [] then st
      else
        let session = newSession newId p
        in st\<lparr>children :=
                 map (\<lambda>child.
                        if child_id child \<noteq> p_childId p then child
                        else
                          let updatedGoals =
                                map (\<lambda>goal.
                                       if goal_id goal \<notin> set (p_goalIds p) then goal
                                       else
                                         let increment = sessionIncrement (p_rating p)
                                         in reclassify goal (js_add (current goal) increment))
                                    (therapyGoals child)
                          in child\<lparr>therapyGoals := updatedGoals,
                                   sessionHistory := session # sessionHistory child\<rparr>)
                     (children st)\<rparr>)"

text \<open>
  \<open>TherapistLogForm\<close> (lines 782 to 814): the form's own cells, and its submit handler,
  which is the only caller of \<open>handleAddSession\<close>.
\<close>

record LogForm =
  form_date :: jsstring
  form_focus :: jsstring
  form_notes :: jsstring
  form_rating :: jsnum
  selectedGoalIds :: "jsstring list"

definition toggleGoal :: "jsstring \<Rightarrow> LogForm \<Rightarrow> LogForm" where
  "toggleGoal goalId form =
     form\<lparr>selectedGoalIds :=
            (if goalId \<in> set (selectedGoalIds form)
             then filter (\<lambda>ident. ident \<noteq> goalId) (selectedGoalIds form)
             else selectedGoalIds form @ [goalId])\<rparr>"

definition handleSubmit ::
  "jsstring \<Rightarrow> ChildProfile \<Rightarrow> TherapistProfile \<Rightarrow> LogForm \<times> HomeState \<Rightarrow> LogForm \<times> HomeState" where
  "handleSubmit newId child therapist fs =
     (let form = fst fs; st = snd fs
      in if selectedGoalIds form = [] then (form, st)
         else
           (form\<lparr>form_focus := [], form_notes := []\<rparr>,
            handleAddSession newId
              \<lparr>p_childId = child_id child,
               p_focus = form_focus form,
               p_notes = form_notes form,
               p_rating = form_rating form,
               p_date = form_date form,
               p_goalIds = selectedGoalIds form,
               p_therapistId = profile_id therapist\<rparr> st))"

section \<open>Events\<close>

text \<open>Every operation that \<open>Home\<close> hands to its views, as one event each.\<close>

datatype Event =
    RoleSelect RoleKey
  | TherapistChange jsstring
  | ParentChange jsstring
  | DonorChange jsstring
  | ChildPick jsstring
  | AddSession jsstring SessionPayload
  | AddFamilyUpdate jsstring jsstring jsstring jsstring

fun dispatch :: "Snapshot \<Rightarrow> HomeState \<Rightarrow> Event \<Rightarrow> error + HomeState" where
  "dispatch snap st (RoleSelect role) = Inr (handleRoleSelect snap role st)"
| "dispatch snap st (TherapistChange ident) = Inr (handleTherapistChange snap ident st)"
| "dispatch snap st (ParentChange ident) = Inr (handleParentChange snap ident st)"
| "dispatch snap st (DonorChange ident) = Inr (handleDonorChange snap ident st)"
| "dispatch snap st (ChildPick ident) = Inr (pickChild ident st)"
| "dispatch snap st (AddSession newId p) = Inr (handleAddSession newId p st)"
| "dispatch snap st (AddFamilyUpdate newId nowIso childId message) =
     handleAddFamilyUpdate newId nowIso childId message st"

text \<open>A sequence of events; an exception ends it.\<close>

fun run :: "Snapshot \<Rightarrow> Event list \<Rightarrow> HomeState \<Rightarrow> error + HomeState" where
  "run snap [] st = Inr st"
| "run snap (ev # events) st =
     (case dispatch snap st ev of Inl e \<Rightarrow> Inl e | Inr st' \<Rightarrow> run snap events st')"

definition rosterConsistent :: "ChildProfile list \<Rightarrow> bool" where
  "rosterConsistent cs \<longleftrightarrow> list_all (\<lambda>child. list_all statusConsistent (therapyGoals child)) cs"

definition rosterInRange :: "ChildProfile list \<Rightarrow> bool" where
  "rosterInRange cs \<longleftrightarrow> list_all (\<lambda>child. list_all percentGoal (therapyGoals child)) cs"

text \<open>The ratings that the range input of the log form can give: 1 to 5.\<close>

fun ratingInRange :: "Event \<Rightarrow> bool" where
  "ratingInRange (AddSession newId p) = (p_rating p \<in> set [Fin 1, Fin 2, Fin 3, Fin 4, Fin 5])"
| "ratingInRange _ = True"

section \<open>Sample data\<close>

definition goal_g1 :: TherapyGoal where
  "goal_g1 = \<lparr>goal_id = utf16 ''g1'', category = utf16 ''Speech'', description = utf16 ''Two-word phrases'',
              baseline = Fin 60, current = Fin 90, target = Fin 100, status = on_track\<rparr>"

definition goal_g2 :: TherapyGoal where
  "goal_g2 = \<lparr>goal_id = utf16 ''g2'', category = utf16 ''Motor'', description = utf16 ''Pincer grasp'',
              baseline = Fin 20, current = Fin 40, target = Fin 100, status = at_risk\<rparr>"

definition child_c1 :: ChildProfile where
  "child_c1 = \<lparr>child_id = utf16 ''c1'', name = utf16 ''Ada'', age = Fin 6, diagnosis = utf16 ''ASD'',
               avatarColor = utf16 ''#fff'', therapists = [utf16 ''t2''], therapyGoals = [],
               sessionHistory = [], upcomingSessions = []\<rparr>"

definition child_c5 :: ChildProfile where
  "child_c5 = \<lparr>child_id = utf16 ''c5'', name = utf16 ''Ben'', age = Fin 7, diagnosis = utf16 ''CP'',
               avatarColor = utf16 ''#000'', therapists = [utf16 ''t1''],
               therapyGoals = [goal_g1, goal_g2], sessionHistory = [], upcomingSessions = []\<rparr>"

definition child_unnamed :: ChildProfile where
  "child_unnamed = child_c5\<lparr>child_id := []\<rparr>"

definition therapist_t1 :: TherapistProfile where
  "therapist_t1 = \<lparr>profile_id = utf16 ''t1'', profile_name = utf16 ''Tia'',
                   childIds = [utf16 ''c5''], title = utf16 ''SLP''\<rparr>"

definition parent_p1 :: ParentProfile where
  "parent_p1 = \<lparr>profile_id = utf16 ''p1'', profile_name = utf16 ''Pat'',
                childIds = [utf16 ''c2'', utf16 ''c5''], contact = utf16 ''pat@example.org''\<rparr>"

definition parent_p2 :: ParentProfile where
  "parent_p2 = \<lparr>profile_id = utf16 ''p2'', profile_name = utf16 ''Quinn'',
                childIds = [[]], contact = utf16 ''quinn@example.org''\<rparr>"

definition donor_d1 :: DonorProfile where
  "donor_d1 = \<lparr>profile_id = utf16 ''d1'', profile_name = utf16 ''Dee'',
               childIds = [utf16 ''c1''], contribution = Fin 5000,
               lastUpdate = utf16 ''2024-01-01'', missions = []\<rparr>"

definition snapshot0 :: Snapshot where
  "snapshot0 = \<lparr>snapshot_therapists = [therapist_t1], snapshot_parents = [parent_p1, parent_p2],
                snapshot_donors = [donor_d1]\<rparr>"

definition state0 :: HomeState where
  "state0 = \<lparr>children = [child_c1, child_c5], selectedRole = Center,
             selectedTherapistId = utf16 ''t1'', selectedParentId = utf16 ''p1'',
             selectedDonorId = utf16 ''d1'', selectedChildId = utf16 ''c1'',
             familyUpdates = Map.empty\<rparr>"

definition payload0 :: SessionPayload where
  "payload0 = \<lparr>p_childId = utf16 ''c5'', p_focus = utf16 '' Turn taking '', p_notes = utf16 '' '',
               p_rating = Fin 5, p_date = utf16 ''2024-05-01'', p_goalIds = [utf16 ''g1''],
               p_therapistId = utf16 ''t1''\<rparr>"

definition payload_no_goals :: SessionPayload where
  "payload_no_goals = payload0\<lparr>p_goalIds := []\<rparr>"

definition payload_blank :: SessionPayload where
  "payload_blank = payload0\<lparr>p_focus := utf16 ''  ''\<rparr>"

definition payload_unknown_child :: SessionPayload where
  "payload_unknown_child = payload0\<lparr>p_childId := utf16 ''c9''\<rparr>"

definition form0 :: LogForm where
  "form0 = \<lparr>form_date = utf16 ''2024-05-01'', form_focus = utf16 ''Turn taking'',
            form_notes = [], form_rating = Fin 3, selectedGoalIds = []\<rparr>"

text \<open>The therapist's view with a focused child that the therapist does not treat.\<close>

definition state_therapist :: HomeState where
  "state_therapist = state0\<lparr>selectedRole := Therapist\<rparr>"

text \<open>The same view with a focused child id that is not in the roster.\<close>

definition state_stale :: HomeState where
  "state_stale = state_therapist\<lparr>selectedChildId := utf16 ''c9''\<rparr>"

text \<open>A roster whose second child has the empty string as its id, and its parent active.\<close>

definition state_unnamed :: HomeState where
  "state_unnamed = state0\<lparr>children := [child_c1, child_unnamed], selectedParentId := utf16 ''p2''\<rparr>"

definition payload_g2 :: SessionPayload where
  "payload_g2 = payload0\<lparr>p_goalIds := [utf16 ''g2'']\<rparr>"

text \<open>
  A run that logs one session on the first goal (90 to 98) and two on the second (40 to 48
  to 56, from at risk to needs support).
\<close>

definition events0 :: "Event list" where
  "events0 = [RoleSelect Parent, AddSession (utf16 ''s1'') payload0,
              AddFamilyUpdate (utf16 ''u1'') (utf16 ''2024-05-01T10:00:00.000Z'') (utf16 ''c5'')
                (utf16 ''Good week''),
              ChildPick (utf16 ''c1''), AddSession (utf16 ''s2'') payload_g2,
              AddSession (utf16 ''s3'') payload_g2]"




text \<open>
  A roster of one goal just under 0.55 of the target \<open>2 ^ 53 - 1\<close>, eight below the
  value 4953959590107545, and rightly at risk.
\<close>

definition goal_edge :: TherapyGoal where
  "goal_edge = goal_g1\<lparr>current := Fin 4953959590107537, target := Fin 9007199254740991,
                        status := at_risk\<rparr>"

definition state_edge :: HomeState where
  "state_edge = state0\<lparr>children := [child_c5\<lparr>therapyGoals := [goal_edge]\<rparr>]\<rparr>"

text \<open>A goal at a given value of 100, and a child with such goals.\<close>

definition goal_at :: "real \<Rightarrow> TherapyGoal" where
  "goal_at c = goal_g1\<lparr>current := Fin c\<rparr>"

definition child_with :: "jsstring \<Rightarrow> real list \<Rightarrow> ChildProfile" where
  "child_with ident cs = child_c1\<lparr>child_id := ident, therapyGoals := map goal_at cs\<rparr>"

definition goal_wide :: TherapyGoal where
  "goal_wide = goal_g1\<lparr>current := Fin 0, target := Fin 9007199254740991, status := at_risk\<rparr>"

definition session_on :: "jsstring \<Rightarrow> jsstring \<Rightarrow> TherapySession" where
  "session_on ident day =
     \<lparr>session_id = ident, date = day, focus = utf16 ''Turn taking'', goalsWorkedOn = [utf16 ''g1''],
      rating = Fin 4, session_notes = noNotesPlaceholder, therapistId = utf16 ''t1''\<rparr>"

text \<open>
  Four logged sessions: one exactly seven days before 2024-05-08T00:00Z, one years later,
  one a day too old, one with a date that does not parse.
\<close>

definition state_week :: HomeState where
  "state_week =
     state0\<lparr>children :=
       [child_c1\<lparr>sessionHistory := [session_on (utf16 ''s1'') (utf16 ''2024-05-01'')]\<rparr>,
        child_c5\<lparr>sessionHistory := [session_on (utf16 ''s2'') (utf16 ''2030-01-01''),
                                    session_on (utf16 ''s3'') (utf16 ''2024-04-30''),
                                    session_on (utf16 ''s4'') (utf16 ''soon'')]\<rparr>]\<rparr>"

definition parse0 :: "jsstring \<Rightarrow> int option" where
  "parse0 s =
     (if s = utf16 ''2024-05-01'' then Some 1714521600000
      else if s = utf16 ''2030-01-01'' then Some 1893456000000
      else if s = utf16 ''2024-04-30'' then Some 1714435200000
      else None)"

definition zone0 :: "int \<Rightarrow> bool \<Rightarrow> int" where
  "zone0 t isUTC = 3600000"

text \<open>
  New York in March 2024: five hours behind UTC until 2024-03-10T07:00Z (02:00 local
  time), four hours behind from then on. The evaluation time is 2024-03-12T16:00Z, and the
  one logged session is dated exactly seven days of 24 hours earlier.
\<close>

definition zoneNY :: "int \<Rightarrow> bool \<Rightarrow> int" where
  "zoneNY t isUTC =
     (if isUTC then (if 1710054000000 \<le> t then - 14400000 else - 18000000)
      else (if 1710054000000 - 18000000 + 3600000 \<le> t then - 14400000 else - 18000000))"

definition nowNY :: int where
  "nowNY = 1710259200000"

definition parseNY :: "jsstring \<Rightarrow> int option" where
  "parseNY s = (if s = utf16 ''2024-03-05T16:00:00Z'' then Some 1709654400000 else None)"

definition state_dst :: HomeState where
  "state_dst =
     state0\<lparr>children :=
       [child_c1\<lparr>sessionHistory := [session_on (utf16 ''s1'') (utf16 ''2024-03-05T16:00:00Z'')]\<rparr>]\<rparr>"

lemmas sample_defs = state0_def snapshot0_def child_c1_def child_c5_def child_unnamed_def
  goal_g1_def goal_g2_def therapist_t1_def parent_p1_def parent_p2_def donor_d1_def
  payload0_def payload_no_goals_def payload_blank_def payload_unknown_child_def payload_g2_def
  form0_def
  state_therapist_def state_stale_def state_unnamed_def utf16_def

section \<open>Properties of the numbers\<close>

text \<open>Concrete values are computed from the definitions.\<close>

lemma bitlen_numeral_step: "bitlen (numeral n) = bitlen (numeral n div 2) + 1"
  by (subst compute_bitlen) simp

lemma bitlen_one: "bitlen 1 = 1"
  by (subst compute_bitlen) simp

lemmas num_eval = fl_def roundMagnitude_def ilog2_def rne_def Let_def bitlen_numeral_step bitlen_one


lemma rne_of_int [simp]: "rne (of_int n) = n"
  by (simp add: rne_def)

lemma rne_floor_le: "\<lfloor>y\<rfloor> \<le> rne y"
  by (simp add: rne_def Let_def)

lemma rne_le_floor_Suc: "rne y \<le> \<lfloor>y\<rfloor> + 1"
  by (simp add: rne_def Let_def)

lemma rne_ge:
  assumes "of_int n - 1 / 2 < y"
  shows "n \<le> rne y"
proof (cases "n \<le> \<lfloor>y\<rfloor>")
  case True
  then show ?thesis using rne_floor_le [of y] by linarith
next
  case False
  then have f: "\<lfloor>y\<rfloor> = n - 1" using assms by linarith
  then have "1 / 2 < y - of_int \<lfloor>y\<rfloor>" using assms by simp
  then show ?thesis using f by (simp add: rne_def Let_def)
qed

lemma rne_le:
  assumes "y < of_int n + 1 / 2"
  shows "rne y \<le> n"
proof (cases "\<lfloor>y\<rfloor> < n")
  case True
  then show ?thesis using rne_le_floor_Suc [of y] by linarith
next
  case False
  then have f: "\<lfloor>y\<rfloor> = n" using assms by linarith
  then have "y - of_int \<lfloor>y\<rfloor> < 1 / 2" using assms by simp
  then show ?thesis using f by (simp add: rne_def Let_def)
qed

lemma two_powi_pos [simp]: "0 < (2::real) powi e"
  by simp

lemma two_powi_mono: "m \<le> n \<Longrightarrow> (2::real) powi m \<le> 2 powi n"
  by (rule power_int_increasing) simp_all

lemma two_powi_less_imp: "(2::real) powi m < 2 powi n \<Longrightarrow> m < n"
  using two_powi_mono [of n m] by (cases "m < n") simp_all

lemma two_powi_nat: "0 \<le> e \<Longrightarrow> (2::real) powi e = 2 ^ nat e"
  by (simp add: power_int_def)

lemma two_powi_neg: "0 \<le> e \<Longrightarrow> (2::real) powi (- e) = 1 / 2 ^ nat e"
  by (simp add: power_int_def field_simps)

lemma ilog2_bounds:
  assumes "0 < a"
  shows "2 powi (ilog2 a) \<le> a \<and> a < 2 powi (ilog2 a + 1)"
proof (cases "1 \<le> a")
  case True
  define m where "m = \<lfloor>a\<rfloor>"
  have m: "0 < m" using True by (simp add: m_def)
  have il: "ilog2 a = bitlen m - 1" using True by (simp add: ilog2_def m_def)
  from bitlen_bounds [OF m]
  have lo: "2 ^ nat (bitlen m - 1) \<le> m" and hi: "m < 2 ^ nat (bitlen m)" by simp_all
  have b1: "1 \<le> bitlen m" using m by (simp add: bitlen_alt_def)
  have "(2::real) ^ nat (bitlen m - 1) \<le> of_int m"
    using lo by (metis of_int_le_iff of_int_numeral of_int_power)
  also have "\<dots> \<le> a" by (simp add: m_def)
  finally have l: "2 powi (ilog2 a) \<le> a"
    using b1 by (simp add: il two_powi_nat)
  have "m + 1 \<le> 2 ^ nat (bitlen m)" using hi by simp
  then have "of_int (m + 1) \<le> (2::real) ^ nat (bitlen m)"
    by (metis of_int_le_iff of_int_numeral of_int_power)
  moreover have "a < of_int (m + 1)" by (simp add: m_def)
  ultimately have "a < (2::real) ^ nat (bitlen m)" by linarith
  then have u: "a < 2 powi (ilog2 a + 1)"
    using b1 by (simp add: il two_powi_nat)
  from l u show ?thesis ..
next
  case False
  then have a1: "a < 1" by simp
  define k where "k = \<lceil>1 / a\<rceil> - 1"
  have inv: "1 < 1 / a" using assms a1 by (simp add: field_simps)
  have k: "0 < k" using inv unfolding k_def by linarith
  have il: "ilog2 a = - bitlen k" using False by (simp add: ilog2_def k_def)
  from bitlen_bounds [OF k]
  have lo: "2 ^ nat (bitlen k - 1) \<le> k" and hi: "k < 2 ^ nat (bitlen k)" by simp_all
  have b1: "1 \<le> bitlen k" using k by (simp add: bitlen_alt_def)
  have "1 / a \<le> of_int (k + 1)" unfolding k_def by simp
  moreover have "k + 1 \<le> 2 ^ nat (bitlen k)" using hi by simp
  then have "of_int (k + 1) \<le> (2::real) ^ nat (bitlen k)"
    by (metis of_int_le_iff of_int_numeral of_int_power)
  ultimately have "1 / a \<le> (2::real) ^ nat (bitlen k)" by linarith
  then have "1 / 2 ^ nat (bitlen k) \<le> a"
    using assms by (simp add: field_simps)
  then have l: "2 powi (ilog2 a) \<le> a"
    using b1 by (simp add: il two_powi_neg)
  have "of_int k < 1 / a" unfolding k_def by linarith
  moreover have "(2::real) ^ nat (bitlen k - 1) \<le> of_int k"
    using lo by (metis of_int_le_iff of_int_numeral of_int_power)
  ultimately have "(2::real) ^ nat (bitlen k - 1) < 1 / a" by linarith
  then have "a < 1 / 2 ^ nat (bitlen k - 1)"
    using assms by (simp add: field_simps)
  moreover have "(2::real) powi (- (bitlen k - 1)) = 1 / 2 ^ nat (bitlen k - 1)"
    using b1 by (intro two_powi_neg) simp
  moreover have "ilog2 a + 1 = - (bitlen k - 1)" by (simp add: il)
  ultimately have u: "a < 2 powi (ilog2 a + 1)"
    by (simp only:)
  from l u show ?thesis ..
qed

lemma ilog2_unique:
  assumes "0 < a" and "2 powi e \<le> a" and "a < 2 powi (e + 1)"
  shows "ilog2 a = e"
proof -
  from ilog2_bounds [OF assms(1)]
  have l: "2 powi (ilog2 a) \<le> a" and u: "a < 2 powi (ilog2 a + 1)" by simp_all
  from l assms(3) have "(2::real) powi (ilog2 a) < 2 powi (e + 1)" by linarith
  then have "ilog2 a < e + 1" by (rule two_powi_less_imp)
  moreover from u assms(2) have "(2::real) powi e < 2 powi (ilog2 a + 1)" by linarith
  then have "e < ilog2 a + 1" by (rule two_powi_less_imp)
  ultimately show ?thesis by simp
qed


lemma roundMagnitude_at:
  assumes "0 < a" and "2 powi e \<le> a" and "a < 2 powi (e + 1)" and "- 1022 \<le> e"
  shows "roundMagnitude a = of_int (rne (a / 2 powi (e - 52))) * 2 powi (e - 52)"
  using assms(4) by (simp add: roundMagnitude_def Let_def ilog2_unique [OF assms(1-3)] max_def)

lemma fl_of_int:
  assumes "n \<noteq> 0" and "\<bar>n\<bar> < 2 ^ 53"
  shows "fl (of_int n) = Fin (of_int n)"
proof -
  define a :: real where "a = \<bar>of_int n\<bar>"
  define e where "e = ilog2 a"
  have an: "a = of_int \<bar>n\<bar>" by (simp add: a_def)
  have a1: "1 \<le> a" using assms(1) unfolding an by (metis abs_ge_zero abs_zero antisym_conv2 of_int_1 of_int_le_iff zless_imp_add1_zle zero_less_abs_iff int_one_le_iff_zero_less)
  then have a0: "0 < a" by simp
  from ilog2_bounds [OF a0] have l: "2 powi e \<le> a" and u: "a < 2 powi (e + 1)"
    by (simp_all add: e_def)
  have a53: "a < 2 ^ 53"
    using assms(2) unfolding an by (metis of_int_less_iff of_int_numeral of_int_power)
  then have "(2::real) powi e < 2 powi 53" using l by simp
  then have e53: "e < 53" by (rule two_powi_less_imp)
  have "(2::real) powi 0 < 2 powi (e + 1)" using a1 u by simp
  then have e0: "0 \<le> e" using two_powi_less_imp [of 0 "e + 1"] by simp
  define k where "k = nat (52 - e)"
  have q: "(2::real) powi (e - 52) = 1 / 2 ^ k"
    using e53 two_powi_neg [of "52 - e"] by (simp add: k_def)
  have "a / (1 / 2 ^ k) = of_int (\<bar>n\<bar> * 2 ^ k)"
    by (simp add: an)
  then have m: "rne (a / (1 / 2 ^ k)) = \<bar>n\<bar> * 2 ^ k"
    by (simp only: rne_of_int)
  have "roundMagnitude a = of_int (rne (a / 2 powi (e - 52))) * 2 powi (e - 52)"
    using e0 by (intro roundMagnitude_at [OF a0 l u]) simp
  also have "\<dots> = of_int (rne (a / (1 / 2 ^ k))) * (1 / 2 ^ k)"
    by (simp only: q)
  also have "\<dots> = of_int (\<bar>n\<bar> * 2 ^ k) * (1 / 2 ^ k)"
    by (simp only: m)
  also have "\<dots> = a"
    by (simp add: an)
  finally have r: "roundMagnitude a = a" .
  have "(2::real) ^ 53 \<le> 2 powi 1024"
    using two_powi_mono [of 53 1024] by (simp only: power_int_numeral)
  then have big: "\<not> 2 powi 1024 \<le> a" using a53 by linarith
  have nz: "(of_int n :: real) \<noteq> 0" using assms(1) by simp
  have "fl (of_int n) = Fin (if 0 < (of_int n :: real) then a else - a)"
    unfolding fl_def Let_def a_def [symmetric] r using nz big a0 by (simp only: if_False) simp
  also have "(if 0 < (of_int n :: real) then a else - a) = of_int n"
    unfolding a_def by simp
  finally show ?thesis .
qed


lemma rne_nonneg: "0 \<le> y \<Longrightarrow> 0 \<le> rne y"
  using rne_floor_le [of y] by (simp add: order_trans [of 0 "\<lfloor>y\<rfloor>"])

lemma roundMagnitude_nonneg:
  assumes "0 \<le> a"
  shows "0 \<le> roundMagnitude a"
  using assms by (simp add: roundMagnitude_def Let_def rne_nonneg)

lemma roundMagnitude_ge:
  assumes "0 < a" and "- 1022 \<le> ilog2 a"
  shows "2 powi (ilog2 a) \<le> roundMagnitude a"
proof -
  define e where "e = ilog2 a"
  define q :: real where "q = 2 powi (e - 52)"
  have q0: "0 < q" by (simp add: q_def)
  from ilog2_bounds [OF assms(1)] have l: "2 powi e \<le> a" and u: "a < 2 powi (e + 1)"
    by (simp_all add: e_def)
  have "(2::real) powi e = 2 powi (52 + (e - 52))" by simp
  also have "\<dots> = 2 powi 52 * 2 powi (e - 52)" by (rule power_int_add) simp
  finally have split: "(2::real) powi e = 2 ^ 52 * q" by (simp add: q_def)
  have "2 ^ 52 * q \<le> a" using l unfolding split .
  then have "2 ^ 52 \<le> a / q"
    using q0 by (simp add: field_simps)
  then have "of_int (2 ^ 52) - 1 / 2 < a / q"
    unfolding of_int_power of_int_numeral by linarith
  then have "2 ^ 52 \<le> rne (a / q)" by (rule rne_ge)
  then have "(2::real) ^ 52 \<le> of_int (rne (a / q))"
    by (metis of_int_le_iff of_int_numeral of_int_power)
  then have "2 ^ 52 * q \<le> of_int (rne (a / q)) * q"
    using q0 by simp
  moreover have "roundMagnitude a = of_int (rne (a / q)) * q"
    unfolding q_def using assms(2)
    by (intro roundMagnitude_at [OF assms(1) l u]) (simp add: e_def)
  ultimately have "2 powi e \<le> roundMagnitude a" unfolding split by simp
  then show ?thesis unfolding e_def .
qed

lemma roundMagnitude_le:
  assumes "0 < a"
  shows "roundMagnitude a \<le> 2 powi (max (ilog2 a) (- 1022) + 1)"
proof -
  define e where "e = max (ilog2 a) (- 1022)"
  define q :: real where "q = 2 powi (e - 52)"
  have q0: "0 < q" by (simp add: q_def)
  from ilog2_bounds [OF assms(1)] have "a < 2 powi (ilog2 a + 1)" by simp
  also have "\<dots> \<le> 2 powi (e + 1)" by (rule two_powi_mono) (simp add: e_def)
  finally have u: "a < 2 powi (e + 1)" .
  have "e + 1 = 53 + (e - 52)" by simp
  then have "(2::real) powi (e + 1) = 2 powi (53 + (e - 52))" by (rule arg_cong)
  also have "\<dots> = 2 powi 53 * 2 powi (e - 52)" by (rule power_int_add) simp
  finally have split: "(2::real) powi (e + 1) = 2 ^ 53 * q" by (simp add: q_def)
  have "a < 2 ^ 53 * q" using u unfolding split .
  then have "a / q < 2 ^ 53"
    using q0 by (simp add: field_simps)
  then have "a / q < of_int (2 ^ 53) + 1 / 2"
    unfolding of_int_power of_int_numeral by linarith
  then have "rne (a / q) \<le> 2 ^ 53" by (rule rne_le)
  then have "of_int (rne (a / q)) \<le> (2::real) ^ 53"
    by (metis of_int_le_iff of_int_numeral of_int_power)
  then have "of_int (rne (a / q)) * q \<le> 2 ^ 53 * q"
    using q0 by simp
  moreover have "roundMagnitude a = of_int (rne (a / q)) * q"
    by (simp add: roundMagnitude_def Let_def q_def e_def)
  ultimately have "roundMagnitude a \<le> 2 powi (e + 1)" unfolding split by simp
  then show ?thesis unfolding e_def .
qed

lemma fl_ge_one:
  assumes "1 \<le> x" and "L \<le> 1"
  shows "js_ge (fl x) (Fin L)"
proof -
  have x0: "0 < x" using assms(1) by simp
  from ilog2_bounds [OF x0] have "x < 2 powi (ilog2 x + 1)" by simp
  then have "(2::real) powi 0 < 2 powi (ilog2 x + 1)" using assms(1) by simp
  then have e0: "0 \<le> ilog2 x" using two_powi_less_imp [of 0 "ilog2 x + 1"] by simp
  then have "2 powi (ilog2 x) \<le> roundMagnitude x"
    by (intro roundMagnitude_ge [OF x0]) simp
  moreover have "(2::real) powi 0 \<le> 2 powi (ilog2 x)" using e0 by (rule two_powi_mono)
  ultimately have r1: "1 \<le> roundMagnitude x" by simp
  show ?thesis
    using x0 r1 assms(2) by (simp add: fl_def Let_def js_ge_def)
qed

lemma fl_lt_half:
  assumes "0 < x" and "x < 1 / 2" and "1 / 2 < L"
  shows "\<not> js_ge (fl x) (Fin L)"
proof -
  from ilog2_bounds [OF assms(1)] have "2 powi (ilog2 x) \<le> x" by simp
  then have "(2::real) powi (ilog2 x) < 2 powi (- 1)" using assms(2) by simp
  then have "ilog2 x < - 1" by (rule two_powi_less_imp)
  then have "max (ilog2 x) (- 1022) + 1 \<le> - 1" by simp
  then have "(2::real) powi (max (ilog2 x) (- 1022) + 1) \<le> 2 powi (- 1)"
    by (rule two_powi_mono)
  with roundMagnitude_le [OF assms(1)] have r: "roundMagnitude x \<le> 1 / 2" by simp
  have "(1::real) / 2 < 2 powi 1024" by simp
  with r have big: "\<not> 2 powi 1024 \<le> roundMagnitude x" by linarith
  show ?thesis
    using assms(1,3) r big unfolding fl_def Let_def js_ge_def
    by (simp only: abs_of_pos if_False) auto
qed

lemma fl_neg_not_ge:
  assumes "x < 0" and "0 < L"
  shows "\<not> js_ge (fl x) (Fin L)"
proof -
  have "0 \<le> roundMagnitude \<bar>x\<bar>" by (rule roundMagnitude_nonneg) simp
  then show ?thesis
    using assms by (auto simp add: fl_def Let_def js_ge_def)
qed

lemma fl_half_one:
  assumes "1 / 2 \<le> x" and "x < 1"
  shows "fl x = Fin (of_int (rne (x * 2 ^ 53)) / 2 ^ 53)"
proof -
  have x0: "0 < x" using assms(1) by simp
  have l: "2 powi (- 1) \<le> x" using assms(1) by simp
  have u: "x < 2 powi (- 1 + 1)" using assms(2) by simp
  have q: "(2::real) powi (- 1 - 52) = 1 / 2 ^ 53" by simp
  have rm: "roundMagnitude x = of_int (rne (x * 2 ^ 53)) / 2 ^ 53"
    using roundMagnitude_at [OF x0 l u] by (simp only: q) simp
  have "2 ^ 52 \<le> x * 2 ^ 53" using assms(1) by simp
  then have "of_int (2 ^ 52) - 1 / 2 < x * 2 ^ 53"
    unfolding of_int_power of_int_numeral by linarith
  then have "2 ^ 52 \<le> rne (x * 2 ^ 53)" by (rule rne_ge)
  then have pos: "0 < rne (x * 2 ^ 53)" by simp
  have "x * 2 ^ 53 < 2 ^ 53" using assms(2) by simp
  then have "x * 2 ^ 53 < of_int (2 ^ 53) + 1 / 2"
    unfolding of_int_power of_int_numeral by linarith
  then have "rne (x * 2 ^ 53) \<le> 2 ^ 53" by (rule rne_le)
  then have "of_int (rne (x * 2 ^ 53)) \<le> (2::real) ^ 53"
    by (metis of_int_le_iff of_int_numeral of_int_power)
  then have "roundMagnitude x \<le> 1" by (simp add: rm)
  moreover have "(1::real) < 2 powi 1024" by simp
  ultimately have big: "\<not> 2 powi 1024 \<le> roundMagnitude x" by linarith
  have nz: "roundMagnitude x \<noteq> 0" using pos by (simp add: rm)
  show ?thesis
    using x0 big nz unfolding fl_def Let_def
    by (simp only: abs_of_pos if_False) (simp add: rm)
qed


lemma js_ge_half_one:
  assumes "1 / 2 \<le> x" and "x < 1"
  shows "js_ge (fl x) (Fin (of_int M / 2 ^ 53)) \<longleftrightarrow> M \<le> rne (x * 2 ^ 53)"
  by (simp add: fl_half_one [OF assms] js_ge_def divide_le_cancel)

lemma scaled_ratio_gt:
  fixes c t M :: int
  assumes "0 < t" and "(2 * M - 1) * t < 2 ^ 54 * c"
  shows "of_int M - 1 / 2 < (of_int c / of_int t) * (2::real) ^ 53"
proof -
  have "real_of_int ((2 * M - 1) * t) < real_of_int (2 ^ 54 * c)"
    using assms(2) by (simp only: of_int_less_iff)
  then have "(2 * real_of_int M - 1) * real_of_int t < 2 ^ 54 * real_of_int c"
    by simp
  then have "(real_of_int M - 1 / 2) * real_of_int t < real_of_int c * 2 ^ 53"
    by (simp add: algebra_simps)
  then show ?thesis
    using assms(1) by (simp add: field_simps)
qed

lemma scaled_ratio_lt:
  fixes c t M :: int
  assumes "0 < t" and "2 ^ 54 * c < (2 * M - 1) * t"
  shows "(of_int c / of_int t) * (2::real) ^ 53 < of_int (M - 1) + 1 / 2"
proof -
  have "real_of_int (2 ^ 54 * c) < real_of_int ((2 * M - 1) * t)"
    using assms(2) by (simp only: of_int_less_iff)
  then have "2 ^ 54 * real_of_int c < (2 * real_of_int M - 1) * real_of_int t"
    by simp
  then have "real_of_int c * 2 ^ 53 < (real_of_int M - 1 / 2) * real_of_int t"
    by (simp add: algebra_simps)
  then show ?thesis
    using assms(1) by (simp add: field_simps)
qed

lemma ratio_ge_threshold:
  fixes c t M :: int
  assumes t: "0 < t"
    and lo: "(1::real) / 2 < of_int M / 2 ^ 53" and hi: "of_int M / 2 ^ 53 \<le> (1::real)"
    and up: "P \<Longrightarrow> (2 * M - 1) * t < 2 ^ 54 * c"
    and down: "\<not> P \<Longrightarrow> 2 ^ 54 * c < (2 * M - 1) * t"
    and big: "t \<le> c \<Longrightarrow> P" and small: "2 * c < t \<Longrightarrow> \<not> P"
  shows "js_ge (js_div (Fin (of_int c)) (Fin (of_int t))) (Fin (of_int M / 2 ^ 53)) \<longleftrightarrow> P"
proof -
  have Lpos: "(0::real) < of_int M / 2 ^ 53" using lo by linarith
  consider "c = 0" | "c < 0" | "0 < c" "t \<le> c" | "0 < c" "2 * c < t" | "0 < c" "c < t" "t \<le> 2 * c"
    by linarith
  then show ?thesis
  proof cases
    case 1
    then have "\<not> P" using small t by simp
    moreover have "\<not> js_ge (js_div (Fin (of_int c)) (Fin (of_int t))) (Fin (of_int M / 2 ^ 53))"
      using 1 t Lpos by (simp add: js_div_def js_ge_def)
    ultimately show ?thesis by simp
  next
    case 2
    then have "\<not> P" using small t by simp
    moreover have "real_of_int c / real_of_int t < 0"
      using 2 t by (simp add: divide_neg_pos)
    then have "\<not> js_ge (fl (real_of_int c / real_of_int t)) (Fin (of_int M / 2 ^ 53))"
      using Lpos by (rule fl_neg_not_ge)
    then have "\<not> js_ge (js_div (Fin (of_int c)) (Fin (of_int t))) (Fin (of_int M / 2 ^ 53))"
      using 2 t by (simp add: js_div_def)
    ultimately show ?thesis by simp
  next
    case 3
    then have "P" using big by simp
    moreover have "1 \<le> real_of_int c / real_of_int t"
      using 3 t by simp
    then have "js_ge (fl (real_of_int c / real_of_int t)) (Fin (of_int M / 2 ^ 53))"
      using hi by (rule fl_ge_one)
    then have "js_ge (js_div (Fin (of_int c)) (Fin (of_int t))) (Fin (of_int M / 2 ^ 53))"
      using 3 t by (simp add: js_div_def)
    ultimately show ?thesis by simp
  next
    case 4
    then have "\<not> P" using small by simp
    moreover have "0 < real_of_int c / real_of_int t" using 4 t by simp
    moreover have "real_of_int c / real_of_int t < 1 / 2"
    proof -
      have "real_of_int (2 * c) < real_of_int t" using 4(2) by (simp only: of_int_less_iff)
      then show ?thesis using t by (simp add: field_simps)
    qed
    ultimately have "\<not> js_ge (fl (real_of_int c / real_of_int t)) (Fin (of_int M / 2 ^ 53))"
      using lo by (simp add: fl_lt_half)
    then have "\<not> js_ge (js_div (Fin (of_int c)) (Fin (of_int t))) (Fin (of_int M / 2 ^ 53))"
      using 4 t by (simp add: js_div_def)
    with \<open>\<not> P\<close> show ?thesis by simp
  next
    case 5
    define x :: real where "x = real_of_int c / real_of_int t"
    have x1: "x < 1" using 5 t by (simp add: x_def)
    have xh: "1 / 2 \<le> x"
    proof -
      have "real_of_int t \<le> real_of_int (2 * c)" using 5(3) by (simp only: of_int_le_iff)
      then show ?thesis using t by (simp add: x_def field_simps)
    qed
    have dv: "js_div (Fin (of_int c)) (Fin (of_int t)) = fl x"
      using 5 t by (simp add: js_div_def x_def)
    have "M \<le> rne (x * 2 ^ 53) \<longleftrightarrow> P"
    proof (cases P)
      case True
      from scaled_ratio_gt [OF t up [OF True]] have "M \<le> rne (x * 2 ^ 53)"
        unfolding x_def by (rule rne_ge)
      with True show ?thesis by simp
    next
      case False
      from scaled_ratio_lt [OF t down [OF False]] have "rne (x * 2 ^ 53) \<le> M - 1"
        unfolding x_def by (rule rne_le)
      with False show ?thesis by simp
    qed
    then show ?thesis
      unfolding dv js_ge_half_one [OF xh x1] .
  qed
qed

lemma lit_08: "fl (8 / 10) = Fin (of_int 7205759403792794 / 2 ^ 53)"
  by (simp add: num_eval)

lemma lit_055: "fl (55 / 100) = Fin (of_int 4953959590107546 / 2 ^ 53)"
  by (simp add: num_eval)

lemma ratio_ge_08:
  fixes c t :: int
  assumes "0 < t" and "t < 2 ^ 52"
  shows "js_ge (js_div (Fin (of_int c)) (Fin (of_int t))) (fl (8 / 10)) \<longleftrightarrow> 4 * t \<le> 5 * c"
  unfolding lit_08 using assms
  by (intro ratio_ge_threshold) simp_all

lemma ratio_ge_055:
  fixes c t :: int
  assumes "0 < t" and "t < 2 ^ 52"
  shows "js_ge (js_div (Fin (of_int c)) (Fin (of_int t))) (fl (55 / 100)) \<longleftrightarrow> 11 * t \<le> 20 * c"
  unfolding lit_055 using assms
  by (intro ratio_ge_threshold) simp_all

lemma js_add_ints:
  assumes "\<bar>a + b\<bar> < 2 ^ 53"
  shows "js_add (Fin (of_int a)) (Fin (of_int b)) = Fin (of_int (a + b))"
proof (cases "a + b = 0")
  case True
  then have "real_of_int a + real_of_int b = 0"
    by (metis of_int_0 of_int_add)
  then show ?thesis using True by (simp add: js_add_def)
next
  case False
  then have nz: "real_of_int a + real_of_int b \<noteq> 0"
    by (metis of_int_0_eq_iff of_int_add)
  have "fl (of_int (a + b)) = Fin (of_int (a + b))"
    using False assms by (rule fl_of_int)
  then show ?thesis using nz by (auto simp add: js_add_def)
qed

lemma Math_min_ints: "Math_min (Fin (of_int a)) (Fin (of_int b)) = Fin (of_int (min a b))"
  by (auto simp add: Math_min_def js_ge_def min_def)


section \<open>Properties of the goal progress engine\<close>

lemma updateGoalStatus_fields:
  "goal_id (updateGoalStatus g) = goal_id g"
  "category (updateGoalStatus g) = category g"
  "description (updateGoalStatus g) = description g"
  "baseline (updateGoalStatus g) = baseline g"
  "current (updateGoalStatus g) = current g"
  "target (updateGoalStatus g) = target g"
  by (simp_all add: updateGoalStatus_def Let_def)

lemma reclassify_current: "current (reclassify g c) = Math_min (target g) c"
  by (simp add: reclassify_def Let_def updateGoalStatus_def)

lemma reclassify_target: "target (reclassify g c) = target g"
  by (simp add: reclassify_def Let_def updateGoalStatus_def)


lemma smallInteger_iff: "smallInteger x \<longleftrightarrow> (\<exists>n. x = Fin (of_int n) \<and> \<bar>n\<bar> < 2 ^ 52)"
proof
  assume "smallInteger x"
  then obtain a where x: "x = Fin a" and i: "a = of_int \<lfloor>a\<rfloor>" and b: "\<bar>a\<bar> < 2 ^ 52"
    by (auto simp add: smallInteger_def split: jsnum.splits)
  from b i have "\<bar>real_of_int \<lfloor>a\<rfloor>\<bar> < 2 ^ 52" by simp
  then have "real_of_int \<bar>\<lfloor>a\<rfloor>\<bar> < real_of_int (2 ^ 52)" by simp
  then have "\<bar>\<lfloor>a\<rfloor>\<bar> < 2 ^ 52" by (simp only: of_int_less_iff)
  with x i show "\<exists>n. x = Fin (of_int n) \<and> \<bar>n\<bar> < 2 ^ 52" by blast
next
  assume "\<exists>n. x = Fin (of_int n) \<and> \<bar>n\<bar> < 2 ^ 52"
  then obtain n where x: "x = Fin (of_int n)" and b: "\<bar>n\<bar> < 2 ^ 52" by blast
  from b have "real_of_int \<bar>n\<bar> < real_of_int (2 ^ 52)" by (simp only: of_int_less_iff)
  then have "\<bar>real_of_int n\<bar> < 2 ^ 52" by simp
  then show "smallInteger x" by (simp add: smallInteger_def x)
qed

lemma ratio_ge_80_iff:
  fixes c t :: int
  assumes "0 < t"
  shows "(80 / 100 \<le> real_of_int c / real_of_int t) \<longleftrightarrow> 4 * t \<le> 5 * c"
proof -
  have "(80 / 100 \<le> real_of_int c / real_of_int t) \<longleftrightarrow> real_of_int (4 * t) \<le> real_of_int (5 * c)"
    using assms by (simp add: field_simps)
  then show ?thesis by (simp only: of_int_le_iff)
qed

lemma ratio_ge_55_iff:
  fixes c t :: int
  assumes "0 < t"
  shows "(55 / 100 \<le> real_of_int c / real_of_int t) \<longleftrightarrow> 11 * t \<le> 20 * c"
proof -
  have "(55 / 100 \<le> real_of_int c / real_of_int t) \<longleftrightarrow> real_of_int (11 * t) \<le> real_of_int (20 * c)"
    using assms by (simp add: field_simps)
  then show ?thesis by (simp only: of_int_le_iff)
qed

text \<open>
  On integers with a target below \<open>2 ^ 52\<close> the engine's comparisons of doubles decide
  exactly as the rule of the specification does on the exact ratio.
\<close>

lemma status_updateGoalStatus_small:
  assumes "current g = Fin (of_int c)" and "target g = Fin (of_int t)"
    and "0 < t" and "t < 2 ^ 52"
  shows "status (updateGoalStatus g) = specStatus (of_int c / of_int t)"
proof -
  have a: "js_ge (js_div (current g) (target g)) (fl (8 / 10))
             \<longleftrightarrow> 80 / 100 \<le> real_of_int c / real_of_int t"
    unfolding assms(1,2) ratio_ge_08 [OF assms(3,4)] ratio_ge_80_iff [OF assms(3)] ..
  have b: "js_ge (js_div (current g) (target g)) (fl (55 / 100))
             \<longleftrightarrow> 55 / 100 \<le> real_of_int c / real_of_int t"
    unfolding assms(1,2) ratio_ge_055 [OF assms(3,4)] ratio_ge_55_iff [OF assms(3)] ..
  show ?thesis
    unfolding updateGoalStatus_def Let_def specStatus_def a b by simp
qed

text \<open>
  The boundaries on a target of 100: 80 is on track, 79 and 55 need support, 54 is at risk.
\<close>

lemma reclassify_boundaries:
  "map (\<lambda>c. status (reclassify goal_g1 (Fin c))) [80, 79, 55, 54]
     = [on_track, needs_support, needs_support, at_risk]"
  by (simp add: goal_g1_def reclassify_def updateGoalStatus_def Math_min_def js_ge_def js_div_def
      num_eval)

text \<open>
  Claim C5, as stated, at a concrete input: the target is \<open>2 ^ 53 - 1\<close> and the new value
  4953959590107545. The exact ratio is below 0.55, but the quotient of the two doubles
  rounds to the double that \<open>0.55\<close> denotes, and the status is needs support, not at risk.
\<close>

theorem reclassify_double_ratio_counterexample:
  "target goal_wide = Fin 9007199254740991
   \<and> (0::real) < 9007199254740991
   \<and> current (reclassify goal_wide (Fin 4953959590107545)) = Fin 4953959590107545
   \<and> (4953959590107545 / 9007199254740991 :: real) < 55 / 100
   \<and> status (reclassify goal_wide (Fin 4953959590107545)) = needs_support"
  by (simp add: goal_wide_def goal_g1_def reclassify_def updateGoalStatus_def Math_min_def
      js_ge_def js_div_def num_eval)

text \<open>
  Claim C5, amended. For a goal whose target is an integer \<open>t\<close> with \<open>0 < t < 2 ^ 52\<close>
  and an integer \<open>newCurrent = n\<close> of magnitude below \<open>2 ^ 52\<close>, reclassifying returns
  the goal with \<open>current\<close> replaced by \<open>min t n\<close> and with the status of the three-tier
  rule on the exact ratio \<open>r = min t n / t\<close>: on track exactly when \<open>r \<ge> 0.80\<close>, needs
  support exactly when \<open>0.55 \<le> r < 0.80\<close>, at risk exactly when \<open>r < 0.55\<close>. The result
  is a function of the goal and \<open>newCurrent\<close> alone, and no other field changes.
\<close>

theorem reclassify_three_tier:
  assumes "target goal = Fin (of_int t)" and "0 < t" and "t < 2 ^ 52"
    and "newCurrent = Fin (of_int n)" and "\<bar>n\<bar> < 2 ^ 52"
  shows "(let g' = reclassify goal newCurrent;
              r = (of_int (min t n) :: real) / of_int t
          in current g' = Fin (of_int (min t n))
           \<and> (status g' = on_track \<longleftrightarrow> r \<ge> 80 / 100)
           \<and> (status g' = needs_support \<longleftrightarrow> 55 / 100 \<le> r \<and> r < 80 / 100)
           \<and> (status g' = at_risk \<longleftrightarrow> r < 55 / 100)
           \<and> g' = goal\<lparr>current := Fin (of_int (min t n)), status := status g'\<rparr>)"
proof -
  let ?h = "goal\<lparr>current := Fin (of_int (min t n))\<rparr>"
  define g' where "g' = reclassify goal newCurrent"
  define r where "r = (of_int (min t n) :: real) / of_int t"
  have g': "g' = updateGoalStatus ?h"
    by (simp add: g'_def reclassify_def Let_def assms(1,4) Math_min_ints)
  have cur: "current g' = Fin (of_int (min t n))"
    by (simp add: g' updateGoalStatus_fields)
  have "status (updateGoalStatus ?h) = specStatus (of_int (min t n) / of_int t)"
    by (rule status_updateGoalStatus_small [OF _ _ assms(2,3)]) (simp_all add: assms(1))
  then have st: "status g' = (if 80 / 100 \<le> r then on_track
                              else if 55 / 100 \<le> r then needs_support else at_risk)"
    by (simp add: g' r_def specStatus_def)
  have t1: "status g' = on_track \<longleftrightarrow> r \<ge> 80 / 100"
    by (simp add: st)
  have t2: "status g' = needs_support \<longleftrightarrow> 55 / 100 \<le> r \<and> r < 80 / 100"
    by (auto simp add: st)
  have t3: "status g' = at_risk \<longleftrightarrow> r < 55 / 100"
    by (auto simp add: st)
  have t4: "g' = goal\<lparr>current := Fin (of_int (min t n)), status := status g'\<rparr>"
    by (simp add: g' updateGoalStatus_def Let_def)
  from cur t1 t2 t3 t4 show ?thesis
    unfolding Let_def g'_def [symmetric] r_def [symmetric] by blast
qed

theorem reclassify_three_tier_witness:
  "target goal_g1 = Fin (of_int 100) \<and> (0::int) < 100 \<and> (100::int) < 2 ^ 52
   \<and> Fin 98 = Fin (of_int 98) \<and> \<bar>98::int\<bar> < 2 ^ 52
   \<and> (let g' = reclassify goal_g1 (Fin 98);
          r = (of_int (min 100 98) :: real) / of_int 100
      in current g' = Fin (of_int (min 100 98))
       \<and> (status g' = on_track \<longleftrightarrow> r \<ge> 80 / 100)
       \<and> (status g' = needs_support \<longleftrightarrow> 55 / 100 \<le> r \<and> r < 80 / 100)
       \<and> (status g' = at_risk \<longleftrightarrow> r < 55 / 100)
       \<and> g' = goal_g1\<lparr>current := Fin (of_int (min 100 98)), status := status g'\<rparr>)"
proof -
  have h1: "target goal_g1 = Fin (of_int 100)" by (simp add: goal_g1_def)
  have h2: "(0::int) < 100" and h3: "(100::int) < 2 ^ 52" by simp_all
  have h4: "Fin 98 = Fin (of_int 98)" by simp
  have h5: "\<bar>98::int\<bar> < 2 ^ 52" by simp
  from reclassify_three_tier [OF h1 h2 h3 h4 h5] h1 h2 h3 h4 h5 show ?thesis
    by (intro conjI)
qed

section \<open>Properties of the mutation log\<close>

text \<open>\<open>handleAddSession\<close> without its local bindings.\<close>

lemma handleAddSession_unfold:
  "handleAddSession newId p st =
     (if trim (p_focus p) = [] then st
      else st\<lparr>children :=
                map (\<lambda>child.
                       if child_id child \<noteq> p_childId p then child
                       else child\<lparr>therapyGoals :=
                                    map (\<lambda>goal.
                                           if goal_id goal \<notin> set (p_goalIds p) then goal
                                           else reclassify goal
                                                  (js_add (current goal)
                                                     (sessionIncrement (p_rating p))))
                                        (therapyGoals child),
                                  sessionHistory := newSession newId p # sessionHistory child\<rparr>)
                    (children st)\<rparr>)"
  unfolding handleAddSession_def Let_def by (rule refl)



lemma not_in_image_neq:
  assumes "a \<notin> f ` A" and "x \<in> A"
  shows "f x \<noteq> a"
proof
  assume "f x = a"
  with assms(2) have "a \<in> f ` A" by (simp add: image_iff bexI [of _ x])
  with assms(1) show False by simp
qed

text \<open>The increments of the ratings 1 to 5, as the doubles give them.\<close>

lemma sessionIncrement_ratings:
  "map sessionIncrement [Fin 1, Fin 2, Fin 3, Fin 4, Fin 5] = [Fin 2, Fin 3, Fin 5, Fin 6, Fin 8]"
  by (simp add: sessionIncrement_def js_mul_def js_div_def num_eval)

text \<open>They are the half-up roundings of the exact \<open>rating / 5 * 8\<close>.\<close>

lemma sessionIncrement_exact:
  fixes r :: int
  assumes "1 \<le> r" and "r \<le> 5"
  shows "sessionIncrement (Fin (of_int r)) = Fin (of_int \<lfloor>(of_int r / 5) * 8 + 1 / 2 :: real\<rfloor>)
       \<and> 2 \<le> \<lfloor>(of_int r / 5) * 8 + 1 / 2 :: real\<rfloor> \<and> \<lfloor>(of_int r / 5) * 8 + 1 / 2 :: real\<rfloor> \<le> 8"
proof -
  from assms consider "r = 1" | "r = 2" | "r = 3" | "r = 4" | "r = 5" by linarith
  then show ?thesis
    using sessionIncrement_ratings by cases simp_all
qed

lemma floor_val_of_int: "\<lfloor>val (Fin (of_int n))\<rfloor> = n"
  by simp

lemma reclassify_small_current:
  fixes r :: int
  assumes "smallInteger (current g)" and "smallInteger (target g)" and "1 \<le> r" and "r \<le> 5"
  shows "current (reclassify g (js_add (current g) (sessionIncrement (Fin (of_int r)))))
         = Fin (of_int (min \<lfloor>val (target g)\<rfloor>
                           (\<lfloor>val (current g)\<rfloor> + \<lfloor>(of_int r / 5) * 8 + 1 / 2 :: real\<rfloor>)))"
proof -
  define inc where "inc = \<lfloor>(of_int r / 5) * 8 + 1 / 2 :: real\<rfloor>"
  from assms(1) obtain c where c: "current g = Fin (of_int c)" and cb: "\<bar>c\<bar> < 2 ^ 52"
    unfolding smallInteger_iff by blast
  from assms(2) obtain t where t: "target g = Fin (of_int t)" and tb: "\<bar>t\<bar> < 2 ^ 52"
    unfolding smallInteger_iff by blast
  from sessionIncrement_exact [OF assms(3,4)]
  have si: "sessionIncrement (Fin (of_int r)) = Fin (of_int inc)" and lo: "2 \<le> inc" and hi: "inc \<le> 8"
    by (simp_all add: inc_def)
  have "\<bar>c + inc\<bar> < 2 ^ 53" using cb lo hi by simp
  then have add: "js_add (Fin (of_int c)) (Fin (of_int inc)) = Fin (of_int (c + inc))"
    by (rule js_add_ints)
  have "current (reclassify g (js_add (current g) (sessionIncrement (Fin (of_int r)))))
        = Math_min (Fin (of_int t)) (Fin (of_int (c + inc)))"
    unfolding reclassify_current c t si add ..
  also have "\<dots> = Fin (of_int (min t (c + inc)))" by (rule Math_min_ints)
  finally show ?thesis
    unfolding c t floor_val_of_int inc_def .
qed

text \<open>
  A rating of 5 on a goal at 90 of 100 gives 98 and on track; the goal that the session
  did not address stays as it was.
\<close>

lemma add_session_example:
  "map (\<lambda>g. (current g, status g))
     (concat (map therapyGoals (children (handleAddSession (utf16 ''s1'') payload0 state0))))
   = [(Fin 98, on_track), (Fin 40, at_risk)]"
  by (simp add: handleAddSession_unfold payload0_def state0_def child_c1_def child_c5_def
      goal_g1_def goal_g2_def trim_def isWhiteSpace_def utf16_def sessionIncrement_def
      reclassify_def updateGoalStatus_def Math_min_def js_ge_def js_add_def js_mul_def js_div_def
      num_eval)

text \<open>
  Claim C1, as stated, at a concrete input: \<open>handleAddSession\<close> called with an empty
  goal-id list and a non-blank focus, for a child of the roster, is not a no-op. The
  session is created and prepended to that child's history.
\<close>

theorem add_session_empty_goals_counterexample:
  "p_goalIds payload_no_goals = []
   \<and> map sessionHistory (children state0) = [[], []]
   \<and> map sessionHistory (children (handleAddSession (utf16 ''s1'') payload_no_goals state0))
       = [[], [newSession (utf16 ''s1'') payload_no_goals]]
   \<and> handleAddSession (utf16 ''s1'') payload_no_goals state0 \<noteq> state0"
proof -
  have a: "map sessionHistory (children state0) = [[], []]"
    by (simp add: state0_def child_c1_def child_c5_def)
  have b: "map sessionHistory (children (handleAddSession (utf16 ''s1'') payload_no_goals state0))
       = [[], [newSession (utf16 ''s1'') payload_no_goals]]"
    by (simp add: handleAddSession_unfold payload_no_goals_def payload0_def state0_def
        child_c1_def child_c5_def trim_def isWhiteSpace_def utf16_def)
  have c: "handleAddSession (utf16 ''s1'') payload_no_goals state0 \<noteq> state0"
  proof
    assume "handleAddSession (utf16 ''s1'') payload_no_goals state0 = state0"
    with a b show False by simp
  qed
  from a b c show ?thesis by (simp add: payload_no_goals_def)
qed

text \<open>
  Claim C1, amended. The empty goal set is rejected by the log form: its submit handler
  returns before it calls \<open>handleAddSession\<close>, and neither the form nor the state of
  \<open>Home\<close> changes. \<open>handleAddSession\<close> itself has no such check: called with an empty
  goal-id list it leaves every child's goals and upcoming sessions as they were, and
  prepends the new session to the history of each child with the given id when the focus
  is not blank.
\<close>

theorem empty_goal_set_rejected_by_form:
  "(selectedGoalIds form = [] \<longrightarrow> handleSubmit newId child therapist (form, st) = (form, st))
   \<and> (p_goalIds p = [] \<longrightarrow>
        map therapyGoals (children (handleAddSession newId p st)) = map therapyGoals (children st)
        \<and> map upcomingSessions (children (handleAddSession newId p st))
            = map upcomingSessions (children st)
        \<and> map sessionHistory (children (handleAddSession newId p st))
            = map (\<lambda>c. if trim (p_focus p) \<noteq> [] \<and> child_id c = p_childId p
                        then newSession newId p # sessionHistory c else sessionHistory c)
                (children st))"
  by (simp add: handleSubmit_def handleAddSession_unfold o_def cong: if_cong)

theorem empty_goal_set_rejected_by_form_witness:
  "selectedGoalIds form0 = []
   \<and> handleSubmit (utf16 ''s1'') child_c5 therapist_t1 (form0, state0) = (form0, state0)
   \<and> p_goalIds payload_no_goals = []
   \<and> map therapyGoals (children (handleAddSession (utf16 ''s1'') payload_no_goals state0))
       = map therapyGoals (children state0)"
  using empty_goal_set_rejected_by_form
    [of form0 "utf16 ''s1''" child_c5 therapist_t1 state0 payload_no_goals]
  by (simp add: form0_def payload_no_goals_def)




text \<open>
  Claim C8. A focus that is blank after trimming makes \<open>handleAddSession\<close> return the
  state it was given, and a message that is blank after trimming does the same for
  \<open>handleAddFamilyUpdate\<close>, which returns normally (\<open>Inr\<close>): the roster, the selection
  and the family-update mapping are all unchanged, no record is built and no exception is
  raised.
\<close>

theorem blank_text_is_noop:
  "(trim (p_focus p) = [] \<longrightarrow> handleAddSession newId p st = st)
   \<and> (trim message = [] \<longrightarrow> handleAddFamilyUpdate newId' nowIso childId message st = Inr st)"
  by (simp add: handleAddSession_def handleAddFamilyUpdate_def)

theorem blank_text_is_noop_witness:
  "trim (p_focus payload_blank) = []
   \<and> handleAddSession (utf16 ''s1'') payload_blank state0 = state0
   \<and> trim [0x0020, 0x0009, 0x000A] = []
   \<and> handleAddFamilyUpdate (utf16 ''u1'') (utf16 ''2024-05-01T10:00:00.000Z'') (utf16 ''c1'')
        [0x0020, 0x0009, 0x000A] state0 = Inr state0"
  using blank_text_is_noop [of payload_blank "utf16 ''s1''" state0
      "[0x0020, 0x0009, 0x000A]" "utf16 ''u1''" "utf16 ''2024-05-01T10:00:00.000Z''" "utf16 ''c1''"]
  by (simp add: payload_blank_def trim_def isWhiteSpace_def utf16_def)

text \<open>
  A first update for a child makes a list of one entry; a child id that names a property
  of \<open>Object.prototype\<close> raises the TypeError instead.
\<close>

lemma family_update_examples:
  "map_sum id (\<lambda>st'. map_option (map update_message) (familyUpdates st' (utf16 ''c1'')))
     (handleAddFamilyUpdate (utf16 ''u1'') (utf16 ''2024-05-01T10:00:00.000Z'') (utf16 ''c1'')
        (utf16 '' hello '') state0)
     = Inr (Some [utf16 ''hello''])"
  "handleAddFamilyUpdate (utf16 ''u1'') (utf16 ''2024-05-01T10:00:00.000Z'')
     (utf16 ''constructor'') (utf16 ''hello'') state0 = Inl TypeError"
  by (simp_all add: handleAddFamilyUpdate_def objectPrototypeKeys_def state0_def trim_def
      isWhiteSpace_def utf16_def)

text \<open>
  Claim C10. With a focus that is not blank and a child id that no child of the roster
  has, \<open>handleAddSession\<close> returns the state it was given: every child, with its goals,
  session history and upcoming sessions, is as before, and the session is attached
  nowhere.
\<close>

theorem add_session_unknown_child:
  assumes "trim (p_focus p) \<noteq> []"
    and "p_childId p \<notin> child_id ` set (children st)"
  shows "handleAddSession newId p st = st"
proof -
  have "map (\<lambda>child. if child_id child \<noteq> p_childId p then child
                      else child\<lparr>therapyGoals := f child, sessionHistory := h child\<rparr>)
          (children st) = children st" for f h
  proof (intro map_idI)
    fix x assume "x \<in> set (children st)"
    then have "child_id x \<noteq> p_childId p"
      by (rule not_in_image_neq [OF assms(2)])
    then show "(if child_id x \<noteq> p_childId p then x
                else x\<lparr>therapyGoals := f x, sessionHistory := h x\<rparr>) = x"
      by simp
  qed
  then show ?thesis
    using assms(1) by (simp add: handleAddSession_unfold)
qed

theorem add_session_unknown_child_witness:
  "trim (p_focus payload_unknown_child) \<noteq> []
   \<and> p_childId payload_unknown_child \<notin> child_id ` set (children state0)
   \<and> handleAddSession (utf16 ''s1'') payload_unknown_child state0 = state0"
  using add_session_unknown_child [of payload_unknown_child state0 "utf16 ''s1''"]
  by (simp add: payload_unknown_child_def payload0_def state0_def child_c1_def child_c5_def
      trim_def isWhiteSpace_def utf16_def)

section \<open>The status invariant\<close>

lemma children_handleRoleSelect: "children (handleRoleSelect snap role st) = children st"
  by (cases role) (simp_all add: handleRoleSelect_def Let_def split: option.splits)

lemma children_handleTherapistChange: "children (handleTherapistChange snap ident st) = children st"
  by (simp add: handleTherapistChange_def Let_def split: option.splits)

lemma children_handleParentChange: "children (handleParentChange snap ident st) = children st"
  by (simp add: handleParentChange_def Let_def split: option.splits)

lemma children_handleDonorChange: "children (handleDonorChange snap ident st) = children st"
  by (simp add: handleDonorChange_def Let_def split: option.splits)

lemma children_handleAddFamilyUpdate:
  assumes "handleAddFamilyUpdate newId nowIso childId message st = Inr st'"
  shows "children st' = children st"
  using assms
  by (auto simp add: handleAddFamilyUpdate_def Let_def split: if_splits option.splits)

text \<open>
  One goal: from integers in range and a rating from 1 to 5, the reclassified goal is in
  range again and carries the status of the rule on its exact ratio.
\<close>

lemma reclassify_percent:
  fixes r :: int
  assumes "percentGoal g" and "1 \<le> r" and "r \<le> 5"
  shows "percentGoal (reclassify g (js_add (current g) (sessionIncrement (Fin (of_int r)))))
       \<and> statusConsistent (reclassify g (js_add (current g) (sessionIncrement (Fin (of_int r)))))"
proof -
  let ?g' = "reclassify g (js_add (current g) (sessionIncrement (Fin (of_int r))))"
  define inc where "inc = \<lfloor>(of_int r / 5) * 8 + 1 / 2 :: real\<rfloor>"
  from assms(1) have sc: "smallInteger (current g)" and st: "smallInteger (target g)"
    and pos: "0 < val (target g)"
    by (simp_all add: percentGoal_def)
  from sc obtain c where c: "current g = Fin (of_int c)" and cb: "\<bar>c\<bar> < 2 ^ 52"
    unfolding smallInteger_iff by blast
  from st obtain t where t: "target g = Fin (of_int t)" and tb: "\<bar>t\<bar> < 2 ^ 52"
    unfolding smallInteger_iff by blast
  have t0: "0 < t" using pos by (simp add: t)
  have t52: "t < 2 ^ 52" using tb by simp
  from sessionIncrement_exact [OF assms(2,3)] have lo: "2 \<le> inc" and hi: "inc \<le> 8"
    by (simp_all add: inc_def)
  define c' where "c' = min t (c + inc)"
  have cur: "current ?g' = Fin (of_int c')"
    using reclassify_small_current [OF sc st assms(2,3)]
    unfolding c t floor_val_of_int inc_def [symmetric] c'_def .
  have tgt: "target ?g' = Fin (of_int t)"
    by (simp add: reclassify_target t)
  have cb': "\<bar>c'\<bar> < 2 ^ 52" using cb t0 t52 lo unfolding c'_def by simp
  have p: "percentGoal ?g'"
    unfolding percentGoal_def cur tgt smallInteger_iff using cb' tb t0 by auto
  have upd: "?g' = updateGoalStatus (g\<lparr>current := current ?g'\<rparr>)"
    by (simp add: reclassify_def Let_def updateGoalStatus_fields)
  have "status (updateGoalStatus (g\<lparr>current := current ?g'\<rparr>))
          = specStatus (of_int c' / of_int t)"
    by (rule status_updateGoalStatus_small [OF _ _ t0 t52]) (simp_all add: cur t)
  then have "status ?g' = specStatus (of_int c' / of_int t)"
    using upd by simp
  then have s: "statusConsistent ?g'"
    unfolding statusConsistent_def cur tgt using t0 by simp
  from p s show ?thesis ..
qed

lemma ratingInRange_AddSession:
  assumes "ratingInRange (AddSession newId p)"
  shows "\<exists>r::int. p_rating p = Fin (of_int r) \<and> 1 \<le> r \<and> r \<le> 5"
proof -
  from assms consider "p_rating p = Fin 1" | "p_rating p = Fin 2" | "p_rating p = Fin 3"
    | "p_rating p = Fin 4" | "p_rating p = Fin 5"
    by auto
  then show ?thesis
  proof cases
    case 1 then have "p_rating p = Fin (of_int 1) \<and> (1::int) \<le> 1 \<and> (1::int) \<le> 5" by simp
    then show ?thesis by blast
  next
    case 2 then have "p_rating p = Fin (of_int 2) \<and> (1::int) \<le> 2 \<and> (2::int) \<le> 5" by simp
    then show ?thesis by blast
  next
    case 3 then have "p_rating p = Fin (of_int 3) \<and> (1::int) \<le> 3 \<and> (3::int) \<le> 5" by simp
    then show ?thesis by blast
  next
    case 4 then have "p_rating p = Fin (of_int 4) \<and> (1::int) \<le> 4 \<and> (4::int) \<le> 5" by simp
    then show ?thesis by blast
  next
    case 5 then have "p_rating p = Fin (of_int 5) \<and> (1::int) \<le> 5 \<and> (5::int) \<le> 5" by simp
    then show ?thesis by blast
  qed
qed

lemma roster_handleAddSession:
  assumes "rosterInRange (children st)" and "rosterConsistent (children st)"
    and "ratingInRange (AddSession newId p)"
  shows "rosterConsistent (children (handleAddSession newId p st))
       \<and> rosterInRange (children (handleAddSession newId p st))"
proof -
  from ratingInRange_AddSession [OF assms(3)]
  obtain r :: int where r: "p_rating p = Fin (of_int r)" and r1: "1 \<le> r" and r5: "r \<le> 5"
    by blast
  have g: "percentGoal goal \<Longrightarrow>
             percentGoal (reclassify goal (js_add (current goal) (sessionIncrement (p_rating p))))
           \<and> statusConsistent (reclassify goal (js_add (current goal) (sessionIncrement (p_rating p))))"
    for goal
    unfolding r by (rule reclassify_percent [OF _ r1 r5])
  from assms(1,2) g show ?thesis
    unfolding handleAddSession_unfold rosterConsistent_def rosterInRange_def
    by (auto simp add: list_all_iff)
qed

lemma roster_dispatch:
  assumes "rosterInRange (children st)" and "rosterConsistent (children st)"
    and "ratingInRange ev" and "dispatch snap st ev = Inr st'"
  shows "rosterConsistent (children st') \<and> rosterInRange (children st')"
proof (cases ev)
  case (AddSession newId p)
  with assms(4) have "st' = handleAddSession newId p st" by simp
  with roster_handleAddSession [OF assms(1,2) assms(3) [unfolded AddSession]] show ?thesis
    by simp
next
  case (AddFamilyUpdate newId nowIso childId message)
  with assms(4) have "handleAddFamilyUpdate newId nowIso childId message st = Inr st'" by simp
  then have "children st' = children st" by (rule children_handleAddFamilyUpdate)
  with assms(1,2) show ?thesis by simp
next
  case (RoleSelect role)
  with assms(4) have "children st' = children st" by (auto simp add: children_handleRoleSelect)
  with assms(1,2) show ?thesis by simp
next
  case (TherapistChange ident)
  with assms(4) have "children st' = children st"
    by (auto simp add: children_handleTherapistChange)
  with assms(1,2) show ?thesis by simp
next
  case (ParentChange ident)
  with assms(4) have "children st' = children st" by (auto simp add: children_handleParentChange)
  with assms(1,2) show ?thesis by simp
next
  case (DonorChange ident)
  with assms(4) have "children st' = children st" by (auto simp add: children_handleDonorChange)
  with assms(1,2) show ?thesis by simp
next
  case (ChildPick ident)
  with assms(4) have "children st' = children st" by (auto simp add: pickChild_def)
  with assms(1,2) show ?thesis by simp
qed

text \<open>
  Claim C6, as stated, at a concrete input: the one goal of the roster is at
  4953959590107537 of \<open>2 ^ 53 - 1\<close> and at risk, as the rule says of its ratio. A
  session of rating 5 takes it to 4953959590107545. The exact ratio is still below 0.55,
  but the quotient of the doubles is the double that \<open>0.55\<close> denotes, and the engine
  sets needs support: the operation has produced a state where the status and the rule
  on \<open>current / target\<close> disagree.
\<close>

theorem status_invariant_double_ratio_counterexample:
  "rosterConsistent (children state_edge)
   \<and> map current (concat (map therapyGoals
         (children (handleAddSession (utf16 ''s1'') payload0 state_edge))))
       = [Fin 4953959590107545]
   \<and> map target (concat (map therapyGoals
         (children (handleAddSession (utf16 ''s1'') payload0 state_edge))))
       = [Fin 9007199254740991]
   \<and> map status (concat (map therapyGoals
         (children (handleAddSession (utf16 ''s1'') payload0 state_edge))))
       = [needs_support]
   \<and> specStatus (4953959590107545 / 9007199254740991) = at_risk
   \<and> \<not> rosterConsistent (children (handleAddSession (utf16 ''s1'') payload0 state_edge))"
  by (simp add: rosterConsistent_def statusConsistent_def specStatus_def handleAddSession_unfold
      state_edge_def goal_edge_def payload0_def state0_def child_c5_def goal_g1_def trim_def
      isWhiteSpace_def utf16_def sessionIncrement_def reclassify_def updateGoalStatus_def
      Math_min_def js_ge_def js_add_def js_mul_def js_div_def num_eval)

text \<open>
  Claim C6, amended. From a roster whose goals have integer \<open>current\<close> and \<open>target\<close> of
  magnitude below \<open>2 ^ 52\<close> with a positive target, and where each goal carries the
  status that the three-tier rule gives for the exact ratio of its \<open>current\<close> to its
  \<open>target\<close>, the same holds in the state after any sequence of role switches, actor
  switches, child picks, family updates and added sessions with ratings from 1 to 5.
\<close>

theorem status_invariant:
  assumes "rosterInRange (children st)" and "rosterConsistent (children st)"
    and "list_all ratingInRange events" and "run snap events st = Inr st'"
  shows "rosterConsistent (children st') \<and> rosterInRange (children st')"
  using assms
proof (induction events arbitrary: st)
  case Nil
  then show ?case by simp
next
  case (Cons ev events)
  from Cons.prems(4) obtain st1 where d: "dispatch snap st ev = Inr st1"
    and rest: "run snap events st1 = Inr st'"
    by (auto split: sum.splits)
  from Cons.prems(3) have ev: "ratingInRange ev" and evs: "list_all ratingInRange events"
    by simp_all
  from roster_dispatch [OF Cons.prems(1,2) ev d]
  have "rosterConsistent (children st1)" and "rosterInRange (children st1)" by simp_all
  then show ?case using evs rest by (intro Cons.IH)
qed

text \<open>
  The run of the witness takes the first goal from 90 to 98 and the second from 40 to 56:
  its status changes from at risk to needs support.
\<close>

lemma run_example:
  "map_sum id (\<lambda>st'. map (\<lambda>g. (current g, status g)) (concat (map therapyGoals (children st'))))
     (run snapshot0 events0 state0)
   = Inr [(Fin 98, on_track), (Fin 56, needs_support)]"
  by (simp add: events0_def handleAddSession_unfold handleAddFamilyUpdate_def
      objectPrototypeKeys_def handleRoleSelect_def findFirstExistingChildId_def
      ensureChildSelection_def orElse_def first_of_def pickChild_def trim_def isWhiteSpace_def
      sessionIncrement_def reclassify_def updateGoalStatus_def Math_min_def js_ge_def js_add_def
      js_mul_def js_div_def num_eval sample_defs)

theorem status_invariant_witness:
  "rosterInRange (children state0) \<and> rosterConsistent (children state0)
   \<and> list_all ratingInRange events0
   \<and> (case run snapshot0 events0 state0 of
        Inr st' \<Rightarrow> rosterConsistent (children st') \<and> rosterInRange (children st')
      | Inl e \<Rightarrow> False)"
proof -
  have h1: "rosterInRange (children state0)"
    by (simp add: rosterInRange_def percentGoal_def smallInteger_def sample_defs)
  have h2: "rosterConsistent (children state0)"
    by (simp add: rosterConsistent_def statusConsistent_def specStatus_def sample_defs)
  have h3: "list_all ratingInRange events0"
    by (simp add: events0_def sample_defs)
  from run_example obtain st' where r: "run snapshot0 events0 state0 = Inr st'"
    by (cases "run snapshot0 events0 state0") simp_all
  from status_invariant [OF h1 h2 h3 r] h1 h2 h3 show ?thesis
    by (simp add: r)
qed

section \<open>Properties of the selection cascade\<close>

lemma filteredChildren_visible:
  "filteredChildren snap st = filter (visibleUnderRole snap st) (children st)"
  by (cases "selectedRole st")
    (simp_all add: filteredChildren_def visibleUnderRole_def cong: filter_cong)

lemma find_None_image: "find (\<lambda>x. f x = a) xs = None \<longleftrightarrow> a \<notin> f ` set xs"
  by (induction xs) auto

lemma find_Some_mem: "find P xs = Some x \<Longrightarrow> x \<in> set xs \<and> P x"
  by (induction xs) (auto split: if_splits)

lemma find_first_index:
  "find P xs = Some x \<Longrightarrow> \<exists>i < length xs. xs ! i = x \<and> P x \<and> (\<forall>j < i. \<not> P (xs ! j))"
  by (simp add: find_Some_iff) blast



text \<open>
  Claim C3, as stated, at a concrete input: in the therapist's view the active child is in
  the roster but not among the children visible to the active therapist, the filtered list
  starts with another child, and the resolved child is the active child all the same.
\<close>

theorem resolved_child_ignores_filter_counterexample:
  "selectedChild state_therapist = Some child_c1
   \<and> \<not> visibleUnderRole snapshot0 state_therapist child_c1
   \<and> filteredChildren snapshot0 state_therapist = [child_c5]
   \<and> resolvedChild snapshot0 state_therapist = Some child_c1
   \<and> child_c1 \<noteq> child_c5"
  by (simp add: selectedChild_def visibleUnderRole_def filteredChildren_def resolvedChild_def
      orElse_def first_of_def sample_defs)

text \<open>
  Claim C3, amended. The resolved child is the active child whenever a child of the roster
  has the active child id: it is the first such child of the roster, visible under the
  role's filter or not. Only when no child has that id is it the first child of the
  filtered list, else the first child of the roster, else none. The filtered list is the
  roster restricted to the children visible under the role: all for the center, those
  whose therapist list contains the active therapist, those of the active parent's or
  donor's child-id list.
\<close>

theorem resolved_child_cases:
  "(\<forall>c. selectedChild st = Some c \<longrightarrow>
        resolvedChild snap st = Some c \<and> c \<in> set (children st) \<and> child_id c = selectedChildId st
        \<and> (\<exists>i < length (children st).
              children st ! i = c
              \<and> (\<forall>j < i. child_id (children st ! j) \<noteq> selectedChildId st)))
   \<and> (selectedChild st = None \<longleftrightarrow> selectedChildId st \<notin> child_id ` set (children st))
   \<and> (selectedChild st = None \<longrightarrow>
        resolvedChild snap st =
          (case filteredChildren snap st of
             c # _ \<Rightarrow> Some c
           | [] \<Rightarrow> (case children st of c # _ \<Rightarrow> Some c | [] \<Rightarrow> None)))
   \<and> filteredChildren snap st = filter (visibleUnderRole snap st) (children st)"
proof -
  have a: "resolvedChild snap st = Some c \<and> c \<in> set (children st) \<and> child_id c = selectedChildId st
        \<and> (\<exists>i < length (children st).
              children st ! i = c
              \<and> (\<forall>j < i. child_id (children st ! j) \<noteq> selectedChildId st))"
    if sc: "selectedChild st = Some c" for c
  proof -
    from sc have f: "find (\<lambda>child. child_id child = selectedChildId st) (children st) = Some c"
      by (simp add: selectedChild_def)
    have r: "resolvedChild snap st = Some c"
      using sc by (simp add: resolvedChild_def orElse_def)
    from find_Some_mem [OF f] have m: "c \<in> set (children st)" "child_id c = selectedChildId st"
      by simp_all
    from find_first_index [OF f]
    have "\<exists>i < length (children st).
              children st ! i = c
              \<and> (\<forall>j < i. child_id (children st ! j) \<noteq> selectedChildId st)"
      by blast
    with r m show ?thesis by blast
  qed
  have b: "selectedChild st = None \<longleftrightarrow> selectedChildId st \<notin> child_id ` set (children st)"
    unfolding selectedChild_def by (rule find_None_image)
  have c: "resolvedChild snap st =
          (case filteredChildren snap st of
             c # _ \<Rightarrow> Some c
           | [] \<Rightarrow> (case children st of c # _ \<Rightarrow> Some c | [] \<Rightarrow> None))"
    if "selectedChild st = None"
    using that by (simp add: resolvedChild_def orElse_def first_of_def split: list.splits)
  from a b c filteredChildren_visible [of snap st] show ?thesis by blast
qed

text \<open>
  Two children with the same id: the resolved child is the one that comes first in the
  roster.
\<close>

lemma resolved_child_first_of_duplicates:
  "resolvedChild snapshot0
     (state0\<lparr>children := [child_c5, child_c1\<lparr>child_id := utf16 ''c5''\<rparr>],
             selectedChildId := utf16 ''c5''\<rparr>) = Some child_c5"
  by (simp add: resolvedChild_def selectedChild_def orElse_def sample_defs)

theorem resolved_child_cases_witness:
  "selectedChild state_therapist = Some child_c1
   \<and> resolvedChild snapshot0 state_therapist = Some child_c1
   \<and> selectedChild state_stale = None
   \<and> resolvedChild snapshot0 state_stale = Some child_c5"
proof -
  have s1: "selectedChild state_therapist = Some child_c1"
    by (simp add: selectedChild_def sample_defs)
  from resolved_child_cases [of state_therapist snapshot0] s1
  have r1: "resolvedChild snapshot0 state_therapist = Some child_c1"
    by blast
  have s2: "selectedChild state_stale = None"
    by (simp add: selectedChild_def sample_defs)
  have f2: "filteredChildren snapshot0 state_stale = [child_c5]"
    by (simp add: filteredChildren_def sample_defs)
  from resolved_child_cases [of state_stale snapshot0] s2
  have "resolvedChild snapshot0 state_stale =
          (case filteredChildren snapshot0 state_stale of
             c # _ \<Rightarrow> Some c
           | [] \<Rightarrow> (case children state_stale of c # _ \<Rightarrow> Some c | [] \<Rightarrow> None))"
    by blast
  with f2 have r2: "resolvedChild snapshot0 state_stale = Some child_c5"
    by simp
  from s1 r1 s2 r2 show ?thesis by blast
qed




section \<open>Properties of the aggregate metrics\<close>

text \<open>A donor who supports no child of the roster has an average of 0.\<close>

lemma averageProgress_no_children:
  assumes "\<And>child. child \<in> set childProfiles \<Longrightarrow> child_id child \<notin> set (childIds donor)"
  shows "averageProgress donor childProfiles = Fin 0"
proof -
  have "filter (\<lambda>child. child_id child \<in> set (childIds donor)) childProfiles = []"
    using assms by (simp add: filter_empty_conv)
  then show ?thesis by (simp add: averageProgress_def)
qed

text \<open>A donor of one child with goals at 90 and 40 has the average 65.\<close>

lemma averageProgress_example:
  "averageProgress (donor_d1\<lparr>childIds := [utf16 ''c5'']\<rparr>) [child_c1, child_c5] = Fin 65"
  by (simp add: averageProgress_def js_add_def js_div_def num_eval sample_defs)

text \<open>
  Three children with goals at 58 and 85, at 100, 92 and 79, and at 45, 66 and 47: the
  exact mean of their means is 71.5, the doubles give 71.49999999999999, and the average
  shown is 71.
\<close>

lemma averageProgress_doubles:
  "averageProgress (donor_d1\<lparr>childIds := [utf16 ''a'', utf16 ''b'', utf16 ''c'']\<rparr>)
     [child_with (utf16 ''a'') [58, 85], child_with (utf16 ''b'') [100, 92, 79],
      child_with (utf16 ''c'') [45, 66, 47]] = Fin 71"
  by (simp add: averageProgress_def child_with_def goal_at_def js_add_def js_div_def num_eval
      sample_defs)

text \<open>
  Claim C2 at a concrete input: the donor supports a child that has no goals. The inner
  quotient is \<open>0 / 0\<close>, nothing guards it, and the average is NaN, not 0.
\<close>

theorem donor_average_no_goals_is_NaN:
  "child_id child_c1 \<in> set (childIds donor_d1)
   \<and> therapyGoals child_c1 = []
   \<and> averageProgress donor_d1 [child_c1, child_c5] = NaN"
  by (simp add: averageProgress_def js_add_def js_div_def donor_d1_def child_c1_def child_c5_def
      utf16_def)

lemma length_filter_mono:
  "(\<And>x. x \<in> set xs \<Longrightarrow> P x \<Longrightarrow> Q x) \<Longrightarrow> length (filter P xs) \<le> length (filter Q xs)"
  by (induction xs) auto

text \<open>
  Claim C9, as stated, at a concrete input: New York, two days after the clocks went
  forward. The one session is dated exactly \<open>7 * 86400000\<close> ms before the evaluation
  time, the boundary of the code is an hour later, and the session is not counted.
\<close>

theorem sessions_this_week_dst_counterexample:
  "map date (concat (map sessionHistory (children state_dst))) = [utf16 ''2024-03-05T16:00:00Z'']
   \<and> parseNY (utf16 ''2024-03-05T16:00:00Z'') = Some (nowNY - 7 * 86400000)
   \<and> weekAgo zoneNY nowNY = nowNY - 7 * 86400000 + 3600000
   \<and> thisWeekSessions parseNY zoneNY nowNY state_dst = 0"
  by (simp add: thisWeekSessions_def weekAgo_def msPerDay_def zoneNY_def nowNY_def parseNY_def
      state_dst_def session_on_def sample_defs)

text \<open>
  Claim C9, amended. The sessions of this week are counted over the session histories of
  all children: a session counts exactly when its date parses to a time at or after the
  boundary, the boundary included. The boundary is the instant whose local time is the
  local time of the evaluation minus seven days of 86400000 ms; it is exactly seven such
  days before the evaluation when the zone offset is the same at both, and an offset
  change in between moves it by the difference. There is no upper bound: once the
  boundary is not after the evaluation time, every session dated after it is counted.
\<close>

theorem sessions_this_week_count:
  "(let boundary = weekAgo LocalTZA now;
        localBoundary = now + LocalTZA now True - 7 * 86400000;
        sessions = concat (map sessionHistory (children st))
    in thisWeekSessions parseDate LocalTZA now st
         = length (filter (\<lambda>session. \<exists>t. parseDate (date session) = Some t \<and> boundary \<le> t)
                     sessions)
     \<and> boundary + LocalTZA localBoundary False = localBoundary
     \<and> (LocalTZA localBoundary False = LocalTZA now True \<longrightarrow> boundary = now - 7 * 86400000)
     \<and> (boundary \<le> now \<longrightarrow>
          length (filter (\<lambda>session. \<exists>t. parseDate (date session) = Some t \<and> now < t) sessions)
            \<le> thisWeekSessions parseDate LocalTZA now st))"
proof -
  define boundary where "boundary = weekAgo LocalTZA now"
  define localBoundary where "localBoundary = now + LocalTZA now True - 7 * 86400000"
  define sessions where "sessions = concat (map sessionHistory (children st))"
  have b: "boundary = localBoundary - LocalTZA localBoundary False"
    by (simp add: boundary_def localBoundary_def weekAgo_def Let_def msPerDay_def)
  have p: "(case parseDate (date session) of None \<Rightarrow> False
            | Some t \<Rightarrow> t \<ge> weekAgo LocalTZA now)
         \<longleftrightarrow> (\<exists>t. parseDate (date session) = Some t \<and> boundary \<le> t)"
    for session :: TherapySession
    by (cases "parseDate (date session)") (simp_all add: boundary_def)
  have c1: "thisWeekSessions parseDate LocalTZA now st
         = length (filter (\<lambda>session. \<exists>t. parseDate (date session) = Some t \<and> boundary \<le> t)
                     sessions)"
    unfolding thisWeekSessions_def p sessions_def by (rule refl)
  have c2: "boundary + LocalTZA localBoundary False = localBoundary"
    by (simp add: b)
  have c3: "boundary = now - 7 * 86400000"
    if "LocalTZA localBoundary False = LocalTZA now True"
    using that by (simp add: b) (simp add: localBoundary_def)
  have c4: "length (filter (\<lambda>session. \<exists>t. parseDate (date session) = Some t \<and> now < t) sessions)
            \<le> thisWeekSessions parseDate LocalTZA now st"
    if le: "boundary \<le> now"
    unfolding c1
  proof (rule length_filter_mono)
    fix x
    assume "\<exists>t. parseDate (date x) = Some t \<and> now < t"
    then obtain t where "parseDate (date x) = Some t" and "now < t" by blast
    then have "parseDate (date x) = Some t \<and> boundary \<le> t" using le by simp
    then show "\<exists>t. parseDate (date x) = Some t \<and> boundary \<le> t" ..
  qed
  from c1 c2 c3 c4 show ?thesis
    unfolding Let_def boundary_def [symmetric] localBoundary_def [symmetric]
      sessions_def [symmetric]
    by blast
qed

text \<open>
  In a zone one hour ahead of UTC throughout, at 2024-05-08T00:00Z: the boundary is
  exactly seven days earlier; the session dated on the boundary and the session of 2030
  count, the one of 2024-04-30 and the one with an unreadable date do not.
\<close>

theorem sessions_this_week_count_witness:
  "zone0 (1715126400000 + zone0 1715126400000 True - 7 * 86400000) False
     = zone0 1715126400000 True
   \<and> weekAgo zone0 1715126400000 = 1715126400000 - 7 * 86400000
   \<and> weekAgo zone0 1715126400000 \<le> 1715126400000
   \<and> thisWeekSessions parse0 zone0 1715126400000 state_week = 2
   \<and> length (filter (\<lambda>session. \<exists>t. parse0 (date session) = Some t \<and> 1715126400000 < t)
                   (concat (map sessionHistory (children state_week)))) = 1"
proof -
  note inst = sessions_this_week_count [where LocalTZA = zone0 and now = 1715126400000
      and parseDate = parse0 and st = state_week, unfolded Let_def]
  have z: "zone0 (1715126400000 + zone0 1715126400000 True - 7 * 86400000) False
             = zone0 1715126400000 True"
    by (simp add: zone0_def)
  from inst z have w: "weekAgo zone0 1715126400000 = 1715126400000 - 7 * 86400000"
    by blast
  then have le: "weekAgo zone0 1715126400000 \<le> 1715126400000"
    by simp
  have c: "length (filter (\<lambda>session. \<exists>t. parse0 (date session) = Some t
                                       \<and> 1715126400000 - 7 * 86400000 \<le> t)
                     (concat (map sessionHistory (children state_week)))) = 2"
    by (simp add: state_week_def session_on_def parse0_def sample_defs)
  have f: "length (filter (\<lambda>session. \<exists>t. parse0 (date session) = Some t \<and> 1715126400000 < t)
                   (concat (map sessionHistory (children state_week)))) = 1"
    by (simp add: state_week_def session_on_def parse0_def sample_defs)
  from inst have "thisWeekSessions parse0 zone0 1715126400000 state_week
         = length (filter (\<lambda>session. \<exists>t. parse0 (date session) = Some t
                                       \<and> weekAgo zone0 1715126400000 \<le> t)
                     (concat (map sessionHistory (children state_week))))"
    by (rule conjunct1)
  then have e: "thisWeekSessions parse0 zone0 1715126400000 state_week = 2"
    unfolding w c .
  from z w le e f show ?thesis by blast
qed

end
